theory Spec2Isabelle
  imports Complex_Main "HOL-Library.AList"
begin

section \<open>Data model (types.ts)\<close>

text \<open>
  JavaScript numbers are modelled as exact reals: the tree only compares coordinates and
  adds an extent to an origin, and the scroll engine uses the four field operations.
  NaN, infinities and rounding are outside the model.
\<close>

record Rect =
  x :: real
  y :: real
  width :: real
  height :: real

text \<open>
  A \<open>VirtualElement\<close>. The field \<open>id\<close> is called \<open>elemId\<close> here (\<open>id\<close> is HOL's identity
  function) and the field \<open>element\<close>, the host node, is called \<open>domElement\<close> and holds the
  node's reference (its index in the document, see below).
\<close>

record VirtualElement =
  elemId :: string
  domElement :: nat
  rect :: Rect
  isVisible :: bool
  originalDisplay :: string

section \<open>The spatial index (kdTree.ts)\<close>

text \<open>
  \<open>KDNode | null\<close>: \<open>Null\<close> is the null reference, \<open>KDNode element axis left right\<close> a node.
  A node holds a reference to a \<open>VirtualElement\<close> object; every function of the tree takes
  \<open>deref\<close>, which reads the object behind a reference. For a tree used on its own the
  reference is the (never mutated) object itself and \<open>deref\<close> is the identity.
\<close>

datatype 'e KDNode = Null | KDNode 'e nat "'e KDNode" "'e KDNode"

fun insertNode :: "('e \<Rightarrow> VirtualElement) \<Rightarrow> 'e KDNode \<Rightarrow> 'e \<Rightarrow> nat \<Rightarrow> 'e KDNode" where
  "insertNode deref Null el depth = KDNode el (depth mod 2) Null Null"
| "insertNode deref (KDNode ne na l r) el depth =
     (let axis = depth mod 2;
          currentCoord = (if axis = 0 then x (rect (deref ne)) else y (rect (deref ne)));
          elementCoord = (if axis = 0 then x (rect (deref el)) else y (rect (deref el)))
      in if elementCoord < currentCoord
         then KDNode ne na (insertNode deref l el (depth + 1)) r
         else KDNode ne na l (insertNode deref r el (depth + 1)))"

definition insert_kd :: "('e \<Rightarrow> VirtualElement) \<Rightarrow> 'e KDNode \<Rightarrow> 'e \<Rightarrow> 'e KDNode" where
  "insert_kd deref rootNode el = insertNode deref rootNode el 0"

definition intersects :: "Rect \<Rightarrow> Rect \<Rightarrow> bool" where
  "intersects rect1 rect2 =
     (\<not> (x rect2 \<ge> x rect1 + width rect1 \<or>
         x rect2 + width rect2 \<le> x rect1 \<or>
         y rect2 \<ge> y rect1 + height rect1 \<or>
         y rect2 + height rect2 \<le> y rect1))"

definition contains :: "Rect \<Rightarrow> real \<Rightarrow> real \<Rightarrow> bool" where
  "contains r px py =
     (px \<ge> x r \<and> px \<le> x r + width r \<and> py \<ge> y r \<and> py \<le> y r + height r)"

text \<open>
  \<open>queryRangeNode\<close> pushes onto the array \<open>results\<close>; the model takes the array and returns
  it with the pushed references appended. The source descends into the left child under
  the test \<open>queryMinCoord < nodeCoord\<close> and then again under \<open>queryMinCoord \<le> nodeCoord\<close>;
  both statements are executed, and so are both here.
\<close>

fun queryRangeNode ::
  "('e \<Rightarrow> VirtualElement) \<Rightarrow> 'e KDNode \<Rightarrow> Rect \<Rightarrow> 'e list \<Rightarrow> 'e list" where
  "queryRangeNode deref Null queryRect results = results"
| "queryRangeNode deref (KDNode ne na l r) queryRect results =
     (let results1 = (if intersects (rect (deref ne)) queryRect then results @ [ne] else results);
          nodeCoord = (if na = 0 then x (rect (deref ne)) else y (rect (deref ne)));
          queryMinCoord = (if na = 0 then x queryRect else y queryRect);
          queryMaxCoord = (if na = 0 then x queryRect + width queryRect
                           else y queryRect + height queryRect);
          results2 = (if queryMinCoord < nodeCoord
                      then queryRangeNode deref l queryRect results1 else results1);
          results3 = (if queryMinCoord \<le> nodeCoord
                      then queryRangeNode deref l queryRect results2 else results2)
      in if queryMaxCoord \<ge> nodeCoord
         then queryRangeNode deref r queryRect results3 else results3)"

definition queryRange :: "('e \<Rightarrow> VirtualElement) \<Rightarrow> 'e KDNode \<Rightarrow> Rect \<Rightarrow> 'e list" where
  "queryRange deref rootNode queryRect = queryRangeNode deref rootNode queryRect []"

definition queryPoint :: "('e \<Rightarrow> VirtualElement) \<Rightarrow> 'e KDNode \<Rightarrow> real \<Rightarrow> real \<Rightarrow> 'e list" where
  "queryPoint deref rootNode px py =
     (let pointRect = \<lparr>x = px, y = py, width = 1, height = 1\<rparr>;
          rangeResults = queryRange deref rootNode pointRect
      in filter (\<lambda>el. contains (rect (deref el)) px py) rangeResults)"

text \<open>
  \<open>findMinNode\<close> is only called on a node (its parameter has type \<open>KDNode\<close>, not
  \<open>KDNode | null\<close>), so the model has no equation for \<open>Null\<close>. It returns the reference
  held by the node it selects, which is the only field \<open>removeNode\<close> reads from its result.
  \<open>coordOn\<close> is the source's \<open>rect[axisToMinimize === 0 ? 'x' : 'y']\<close>.
\<close>

definition coordOn :: "nat \<Rightarrow> Rect \<Rightarrow> real" where
  "coordOn axisToMinimize r = (if axisToMinimize = 0 then x r else y r)"

fun findMinNode :: "('e \<Rightarrow> VirtualElement) \<Rightarrow> 'e KDNode \<Rightarrow> nat \<Rightarrow> nat \<Rightarrow> 'e" where
  "findMinNode deref (KDNode ne na l r) axisToMinimize currentDepth =
     (let currentSplitAxis = currentDepth mod 2 in
      if currentSplitAxis = axisToMinimize then
        (case l of
           Null \<Rightarrow> ne
         | KDNode le la ll lr \<Rightarrow>
             (let leftMin = findMinNode deref l axisToMinimize (currentDepth + 1);
                  nodeVal = coordOn axisToMinimize (rect (deref ne));
                  leftMinVal = coordOn axisToMinimize (rect (deref leftMin))
              in if leftMinVal < nodeVal then leftMin else ne))
      else
        (let minCandidate1 =
               (case l of
                  Null \<Rightarrow> ne
                | KDNode le la ll lr \<Rightarrow>
                    (let leftSubtreeMin =
                           findMinNode deref l axisToMinimize (currentDepth + 1)
                     in if coordOn axisToMinimize (rect (deref leftSubtreeMin))
                           < coordOn axisToMinimize (rect (deref ne))
                        then leftSubtreeMin else ne))
         in (case r of
               Null \<Rightarrow> minCandidate1
             | KDNode re ra rl rr \<Rightarrow>
                 (let rightSubtreeMin =
                        findMinNode deref r axisToMinimize (currentDepth + 1)
                  in if coordOn axisToMinimize (rect (deref rightSubtreeMin))
                        < coordOn axisToMinimize (rect (deref minCandidate1))
                     then rightSubtreeMin else minCandidate1))))"

fun removeNode :: "('e \<Rightarrow> VirtualElement) \<Rightarrow> 'e KDNode \<Rightarrow> 'e \<Rightarrow> nat \<Rightarrow> 'e KDNode" where
  "removeNode deref Null elementToRemove depth = Null"
| "removeNode deref (KDNode ne na l r) elementToRemove depth =
     (let axis = depth mod 2 in
      if elemId (deref ne) = elemId (deref elementToRemove) then
        (case r of
           Null \<Rightarrow> l
         | KDNode re ra rl rr \<Rightarrow>
             (case l of
                Null \<Rightarrow> r
              | KDNode le la ll lr \<Rightarrow>
                  (let replacement = findMinNode deref r axis (depth + 1)
                   in KDNode replacement na l (removeNode deref r replacement (depth + 1)))))
      else
        (let nodeCoord = (if axis = 0 then x (rect (deref ne)) else y (rect (deref ne)));
             elementToRemoveCoord = (if axis = 0 then x (rect (deref elementToRemove))
                                     else y (rect (deref elementToRemove)))
         in if elementToRemoveCoord < nodeCoord
            then KDNode ne na (removeNode deref l elementToRemove (depth + 1)) r
            else KDNode ne na l (removeNode deref r elementToRemove (depth + 1))))"

text \<open>
  \<open>remove\<close> first rejects a null element or a null id; a \<open>VirtualElement\<close> of the model always
  has an id (the empty string is not null), so only the call of \<open>removeNode\<close> remains.
\<close>

definition remove_kd :: "('e \<Rightarrow> VirtualElement) \<Rightarrow> 'e KDNode \<Rightarrow> 'e \<Rightarrow> 'e KDNode" where
  "remove_kd deref rootNode el = removeNode deref rootNode el 0"

text \<open>
  A tree used on its own, as the unit tests of the repository use it: the references are
  the elements themselves, and a run is a list of \<open>insert\<close> and \<open>remove\<close> calls on an
  initially empty tree.
\<close>

datatype 'e TreeOp = Insert 'e | Remove 'e

fun applyOp :: "('e \<Rightarrow> VirtualElement) \<Rightarrow> 'e KDNode \<Rightarrow> 'e TreeOp \<Rightarrow> 'e KDNode" where
  "applyOp deref rootNode (Insert el) = insert_kd deref rootNode el"
| "applyOp deref rootNode (Remove el) = remove_kd deref rootNode el"

definition applyOps :: "('e \<Rightarrow> VirtualElement) \<Rightarrow> 'e TreeOp list \<Rightarrow> 'e KDNode" where
  "applyOps deref ops = foldl (applyOp deref) Null ops"

text \<open>
  The ids a run tracks, in the spec's words: those inserted and not subsequently removed.
\<close>

fun trackedIds :: "VirtualElement TreeOp list \<Rightarrow> string set \<Rightarrow> string set" where
  "trackedIds [] ids = ids"
| "trackedIds (Insert el # ops) ids = trackedIds ops (ids \<union> {elemId el})"
| "trackedIds (Remove el # ops) ids = trackedIds ops (ids - {elemId el})"

text \<open>
  Invariant I2 in the spec's words, for a subtree whose root is at depth \<open>d\<close>: the stored
  axis of every node is its depth modulo 2, and every element of its left subtree has a
  lesser coordinate on that axis.
\<close>

fun elementsOf :: "'e KDNode \<Rightarrow> 'e list" where
  "elementsOf Null = []"
| "elementsOf (KDNode ne na l r) = ne # elementsOf l @ elementsOf r"

fun invariantI2 :: "('e \<Rightarrow> VirtualElement) \<Rightarrow> 'e KDNode \<Rightarrow> nat \<Rightarrow> bool" where
  "invariantI2 deref Null d = True"
| "invariantI2 deref (KDNode ne na l r) d =
     (na = d mod 2 \<and>
      list_all (\<lambda>el. coordOn na (rect (deref el)) < coordOn na (rect (deref ne))) (elementsOf l) \<and>
      invariantI2 deref l (d + 1) \<and> invariantI2 deref r (d + 1))"

definition mkElement :: "string \<Rightarrow> real \<Rightarrow> real \<Rightarrow> real \<Rightarrow> real \<Rightarrow> VirtualElement" where
  "mkElement i rx ry rw rh =
     \<lparr>elemId = i, domElement = 0, rect = \<lparr>x = rx, y = ry, width = rw, height = rh\<rparr>,
      isVisible = False, originalDisplay = ''block''\<rparr>"

section \<open>The manager (class Virtualboy)\<close>

subsection \<open>Host nodes and manager state\<close>

text \<open>
  A style length written by a template literal \<open>`${n}px`\<close> is \<open>Px n\<close>; any other string
  is \<open>Str\<close>. A host element is modelled by the properties the manager reads or writes.
\<close>

datatype CssValue = Str string | Px real

record HTMLElement =
  nodeId :: string
  stylePosition :: string
  styleVisibility :: string
  styleDisplay :: string
  styleLeft :: CssValue
  styleTop :: CssValue
  styleWidth :: CssValue
  styleHeight :: CssValue

text \<open>
  The nodes the manager hands to the raw (saved, non-intercepted) primitives of the
  container: a host element, the sizer, or a document fragment holding host elements. The
  model keeps the container's child list and records the calls made to the primitives, in
  order.
\<close>

datatype Node = ElementNode nat | SizerNode | FragmentNode "nat list"

datatype DomCall = OriginalAppendChild Node | OriginalRemoveChild Node

text \<open>
  The host's \<open>removeChild\<close> throws \<open>NotFoundError\<close> when the node is not a child of the
  container. An operation either returns, or throws with the state as the statements
  executed so far have left it (the manager's fields are mutated in place, so what was
  written before the throw stays written).
\<close>

datatype DOMException = NotFoundError

datatype 'a Outcome = Returned 'a | Threw DOMException 'a

fun stateOf :: "'a Outcome \<Rightarrow> 'a" where
  "stateOf (Returned s) = s"
| "stateOf (Threw e s) = s"

fun returned :: "'a Outcome \<Rightarrow> bool" where
  "returned (Returned s) = True"
| "returned (Threw e s) = False"

text \<open>
  A loop whose body may throw: the first throw ends it.
\<close>

fun foldOutcome :: "('s \<Rightarrow> 'a \<Rightarrow> 's Outcome) \<Rightarrow> 's \<Rightarrow> 'a list \<Rightarrow> 's Outcome" where
  "foldOutcome f s [] = Returned s"
| "foldOutcome f s (a # as) =
     (case f s a of
        Threw e s' \<Rightarrow> Threw e s'
      | Returned s' \<Rightarrow> foldOutcome f s' as)"

record Sizer =
  sizerHeightPx :: real
  sizerWidthPx :: real

text \<open>
  The state: the container's scroll offsets, client size and child nodes; the document
  (host nodes by reference); the calls made to the raw primitives; the number of
  callbacks handed to \<open>requestAnimationFrame\<close> that have not run yet; the warnings
  logged; the \<open>VirtualElement\<close> objects by reference (the tracked-item map and the tree
  share them) with the number allocated so far; and the fields of the class. \<open>elements\<close>
  is a \<open>Map\<close> and \<open>currentlyVisibleElements\<close> a \<open>Set\<close>, both kept in insertion order as
  JavaScript iterates them.
\<close>

record Virtualboy =
  scrollTop :: real
  scrollLeft :: real
  clientWidth :: real
  clientHeight :: real
  children :: "Node list"
  document :: "nat \<Rightarrow> HTMLElement"
  domCalls :: "DomCall list"
  animationFrames :: nat
  warnings :: "string list"
  objs :: "nat \<Rightarrow> VirtualElement"
  objCount :: nat
  measureFunction :: "nat \<Rightarrow> real \<times> real"
  kdTree :: "nat KDNode"
  elements :: "(string \<times> nat) list"
  virtualScrollTop :: real
  virtualScrollLeft :: real
  totalVirtualWidth :: real
  totalVirtualHeight :: real
  nextElementId :: nat
  currentlyVisibleElements :: "string list"
  sizerElement :: "Sizer option"
  updateQueued :: bool

definition MAX_SCROLL_HEIGHT :: real where
  "MAX_SCROLL_HEIGHT = 1000000"

definition MAX_SCROLL_WIDTH :: real where
  "MAX_SCROLL_WIDTH = 1000000"

definition setAdd :: "string list \<Rightarrow> string \<Rightarrow> string list" where
  "setAdd s k = (if k \<in> set s then s else s @ [k])"

definition setDelete :: "string list \<Rightarrow> string \<Rightarrow> string list" where
  "setDelete s k = removeAll k s"

subsection \<open>The raw primitives\<close>

text \<open>
  \<open>originalAppendChild\<close> moves an element (or the sizer) to the end of the child list and
  appends the elements of a fragment (an element put into a fragment has left the
  container already). \<open>originalRemoveChild\<close> removes a child and throws for a node that
  is not one.
\<close>

fun appended :: "Node list \<Rightarrow> Node \<Rightarrow> Node list" where
  "appended cs (FragmentNode fragment) = cs @ map ElementNode fragment"
| "appended cs (ElementNode el) = removeAll (ElementNode el) cs @ [ElementNode el]"
| "appended cs SizerNode = removeAll SizerNode cs @ [SizerNode]"

definition originalAppendChild :: "Virtualboy \<Rightarrow> Node \<Rightarrow> Virtualboy" where
  "originalAppendChild st node =
     st\<lparr>domCalls := domCalls st @ [OriginalAppendChild node],
        children := appended (children st) node\<rparr>"

definition originalRemoveChild :: "Virtualboy \<Rightarrow> Node \<Rightarrow> Virtualboy Outcome" where
  "originalRemoveChild st node =
     (if node \<in> set (children st)
      then Returned (st\<lparr>domCalls := domCalls st @ [OriginalRemoveChild node],
                       children := removeAll node (children st)\<rparr>)
      else Threw NotFoundError (st\<lparr>domCalls := domCalls st @ [OriginalRemoveChild node]\<rparr>))"

subsection \<open>generateId\<close>

function natToString :: "nat \<Rightarrow> string" where
  "natToString n =
     (if n < 10 then [''0123456789'' ! n]
      else natToString (n div 10) @ [''0123456789'' ! (n mod 10)])"
  by pat_completeness auto
termination
  by (relation "measure (\<lambda>n. n)") auto

text \<open>
  \<open>generateId\<close> returns the id built from the counter and increments the counter; the
  model splits the two: \<open>generateId n\<close> is the string, and the caller adds one to
  \<open>nextElementId\<close> where the source calls the method.
\<close>

definition generateId :: "nat \<Rightarrow> string" where
  "generateId n = ''virtual-element-'' @ natToString n"

subsection \<open>updateSizer\<close>

text \<open>
  The sizer's style is written only while the sizer exists (\<open>if (this.sizerElement)\<close>).
\<close>

definition updateSizer :: "Virtualboy \<Rightarrow> Virtualboy" where
  "updateSizer st =
     (let sizerHeight = (if totalVirtualHeight st > MAX_SCROLL_HEIGHT
                         then MAX_SCROLL_HEIGHT else totalVirtualHeight st);
          sizerWidth = (if totalVirtualWidth st > MAX_SCROLL_WIDTH
                        then MAX_SCROLL_WIDTH else totalVirtualWidth st)
      in st\<lparr>sizerElement :=
              (case sizerElement st of
                 None \<Rightarrow> None
               | Some sz \<Rightarrow> Some \<lparr>sizerHeightPx = sizerHeight, sizerWidthPx = sizerWidth\<rparr>)\<rparr>)"

subsection \<open>handleElementAdded\<close>

text \<open>
  \<open>handleElementAdded st el isInitialDiscovery\<close>, for the host element with reference
  \<open>el\<close>. The measurement collaborator is a function of the node. The parameter
  \<open>_refChild\<close> of the source is unused there and left out. The steps follow the source:
  the off-screen styles (\<open>st1\<close>), the raw append unless the element is an initial child
  (\<open>st2\<close>), the measurement, the raw remove (\<open>st3\<close>), the restored styles (\<open>st4\<close>), the
  rectangle stacked below the current total and the grown totals (\<open>st5\<close>), the id,
  generated and written back to the node when the node has none (\<open>st6\<close>), the new object
  (\<open>st7\<close>), the map entry (\<open>st8\<close>) and the tree insertion.
\<close>

text \<open>
  The test that opens \<open>handleElementAdded\<close>, named for the statements below: the element
  has an id and the map has it.
\<close>

definition duplicateId :: "Virtualboy \<Rightarrow> nat \<Rightarrow> bool" where
  "duplicateId st el =
     (nodeId (document st el) \<noteq> [] \<and> map_of (elements st) (nodeId (document st el)) \<noteq> None)"

definition handleElementAdded :: "Virtualboy \<Rightarrow> nat \<Rightarrow> bool \<Rightarrow> Virtualboy Outcome" where
  "handleElementAdded st el isInitialDiscovery =
     (let element = document st el in
      if nodeId element \<noteq> [] \<and> map_of (elements st) (nodeId element) \<noteq> None then
        Returned (st\<lparr>warnings := warnings st @
              [''Virtualboy: Element with ID '' @ [CHR 39] @ nodeId element @ [CHR 39]
               @ '' already added. Skipping.'']\<rparr>)
      else
        (let originalStyle = element;
             currentDisplay = styleDisplay element;
             displayForMeasure =
               (if currentDisplay \<noteq> [] \<and> currentDisplay \<noteq> ''none''
                   \<and> currentDisplay \<noteq> ''inline''
                then currentDisplay else ''block'');
             st1 = st\<lparr>document := (document st)(el := element
                        \<lparr>stylePosition := ''absolute'', styleVisibility := ''hidden'',
                         styleDisplay := displayForMeasure, styleLeft := Str ''-9999px'',
                         styleTop := Str ''-9999px''\<rparr>)\<rparr>;
             st2 = st1\<lparr>domCalls := domCalls st1 @
                          (if \<not> isInitialDiscovery
                           then [OriginalAppendChild (ElementNode el)] else []),
                        children :=
                          (if \<not> isInitialDiscovery
                           then appended (children st1) (ElementNode el) else children st1)\<rparr>;
             dimensions = measureFunction st2 el
         in case originalRemoveChild st2 (ElementNode el) of
              Threw e thrown \<Rightarrow> Threw e thrown
            | Returned st3 \<Rightarrow>
                Returned
                  (let st4 = st3\<lparr>document := (document st3)(el := (document st3 el)
                                  \<lparr>stylePosition := stylePosition originalStyle,
                                   styleVisibility := styleVisibility originalStyle,
                                   styleDisplay := styleDisplay originalStyle,
                                   styleLeft := styleLeft originalStyle,
                                   styleTop := styleTop originalStyle\<rparr>)\<rparr>;
                       virtualRect = \<lparr>x = 0, y = totalVirtualHeight st4,
                                      width = fst dimensions, height = snd dimensions\<rparr>;
                       st5 = updateSizer
                               (st4\<lparr>totalVirtualHeight :=
                                      totalVirtualHeight st4 + snd dimensions,
                                    totalVirtualWidth :=
                                      max (totalVirtualWidth st4) (fst dimensions)\<rparr>);
                       newId = (if nodeId element = [] then generateId (nextElementId st5)
                                else nodeId element);
                       st6 = st5\<lparr>nextElementId :=
                                    nextElementId st5 + (if nodeId element = [] then 1 else 0),
                                  document := (document st5)(el := (document st5 el)
                                    \<lparr>nodeId := newId\<rparr>)\<rparr>;
                       virtualElement =
                         \<lparr>elemId = newId, domElement = el, rect = virtualRect,
                          isVisible = False,
                          originalDisplay = styleDisplay (document st6 el)\<rparr>;
                       ref = objCount st6;
                       st7 = st6\<lparr>objs := (objs st6)(ref := virtualElement),
                                  objCount := ref + 1\<rparr>;
                       st8 = st7\<lparr>elements := AList.update newId ref (elements st7)\<rparr>
                   in st8\<lparr>kdTree := insert_kd (objs st8) (kdTree st8) ref\<rparr>)))"

subsection \<open>handleElementRemoved\<close>

text \<open>
  The loop over \<open>this.elements.values()\<close> that recomputes the total extent; the pair
  is (\<open>newTotalHeight\<close>, \<open>newTotalWidth\<close>).
\<close>

definition extentStep :: "(nat \<Rightarrow> VirtualElement) \<Rightarrow> real \<times> real \<Rightarrow> nat \<Rightarrow> real \<times> real" where
  "extentStep heap acc ve =
     (max (fst acc) (y (rect (heap ve)) + height (rect (heap ve))),
      max (snd acc) (x (rect (heap ve)) + width (rect (heap ve))))"

definition handleElementRemoved :: "Virtualboy \<Rightarrow> nat \<Rightarrow> Virtualboy Outcome" where
  "handleElementRemoved st el =
     (let elId = nodeId (document st el) in
      case (if elId \<noteq> [] then map_of (elements st) elId else None) of
        Some virtualElement \<Rightarrow>
          (let st1 = st\<lparr>kdTree := remove_kd (objs st) (kdTree st) virtualElement\<rparr>;
               st2 = st1\<lparr>elements := AList.delete elId (elements st1)\<rparr>;
               newTotals = foldl (extentStep (objs st2)) (0, 0) (map snd (elements st2));
               st3 = updateSizer (st2\<lparr>totalVirtualHeight := fst newTotals,
                                     totalVirtualWidth := snd newTotals\<rparr>)
           in if isVisible (objs st3 virtualElement) then
                (case originalRemoveChild st3 (ElementNode el) of
                   Threw e thrown \<Rightarrow> Threw e thrown
                 | Returned st4 \<Rightarrow>
                     Returned
                       (st4\<lparr>objs := (objs st4)(virtualElement :=
                                       (objs st4 virtualElement)\<lparr>isVisible := False\<rparr>),
                            currentlyVisibleElements :=
                              setDelete (currentlyVisibleElements st4) elId\<rparr>))
              else Returned st3)
      | None \<Rightarrow> originalRemoveChild st (ElementNode el))"

subsection \<open>handleScroll\<close>

text \<open>
  The handler has three blocks: the vertical scroll calculation with its clamping, the
  horizontal one, and the queueing of one \<open>requestAnimationFrame\<close> callback unless one is
  queued already. The two calculations are named here; each reads the state the handler
  was entered with. The handler calls no raw primitive and cannot throw.
\<close>

definition verticalScrollCalculation :: "Virtualboy \<Rightarrow> real" where
  "verticalScrollCalculation st =
     (let top1 =
            (if totalVirtualHeight st \<le> MAX_SCROLL_HEIGHT then scrollTop st
             else
               (let sizerEffectiveHeight = MAX_SCROLL_HEIGHT;
                    parentClientHeight = clientHeight st;
                    maxScrollTopForSizer = sizerEffectiveHeight - parentClientHeight
                in if maxScrollTopForSizer \<le> 0 then 0
                   else
                     (let currentScrollTopForSizer = scrollTop st;
                          scrollPercentageY0 =
                            (if maxScrollTopForSizer > 0
                             then currentScrollTopForSizer / maxScrollTopForSizer else 0);
                          scrollPercentageY = max 0 (min 1 scrollPercentageY0);
                          maxVirtualScrollTop = totalVirtualHeight st - parentClientHeight
                      in scrollPercentageY *
                           (if maxVirtualScrollTop > 0 then maxVirtualScrollTop else 0))));
          top2 = max 0 top1;
          maxPossibleVirtualScrollTop = totalVirtualHeight st - clientHeight st
      in min top2 (if maxPossibleVirtualScrollTop > 0
                   then maxPossibleVirtualScrollTop else 0))"

definition horizontalScrollCalculation :: "Virtualboy \<Rightarrow> real" where
  "horizontalScrollCalculation st =
     (let left1 =
            (if totalVirtualWidth st \<le> MAX_SCROLL_WIDTH then scrollLeft st
             else
               (let sizerEffectiveWidth = MAX_SCROLL_WIDTH;
                    parentClientWidth = clientWidth st;
                    maxScrollLeftForSizer = sizerEffectiveWidth - parentClientWidth
                in if maxScrollLeftForSizer \<le> 0 then 0
                   else
                     (let currentScrollLeftForSizer = scrollLeft st;
                          scrollPercentageX0 =
                            (if maxScrollLeftForSizer > 0
                             then currentScrollLeftForSizer / maxScrollLeftForSizer else 0);
                          scrollPercentageX = max 0 (min 1 scrollPercentageX0);
                          maxVirtualScrollLeft = totalVirtualWidth st - parentClientWidth
                      in scrollPercentageX *
                           (if maxVirtualScrollLeft > 0 then maxVirtualScrollLeft else 0))));
          left2 = max 0 left1;
          maxPossibleVirtualScrollLeft = totalVirtualWidth st - clientWidth st
      in min left2 (if maxPossibleVirtualScrollLeft > 0
                    then maxPossibleVirtualScrollLeft else 0))"

definition handleScroll :: "Virtualboy \<Rightarrow> Virtualboy" where
  "handleScroll st =
     (let st1 = st\<lparr>virtualScrollTop := verticalScrollCalculation st,
                   virtualScrollLeft := horizontalScrollCalculation st\<rparr>
      in if \<not> updateQueued st1
         then st1\<lparr>updateQueued := True, animationFrames := animationFrames st1 + 1\<rparr>
         else st1)"

text \<open>
  A scroll event: the host has moved the container to the given offsets (top, left) and
  calls the listener.
\<close>

definition scrollEvent :: "Virtualboy \<Rightarrow> real \<times> real \<Rightarrow> Virtualboy" where
  "scrollEvent st offsets = handleScroll (st\<lparr>scrollTop := fst offsets, scrollLeft := snd offsets\<rparr>)"

subsection \<open>updateVisibleElements\<close>

text \<open>
  The three loops of \<open>updateVisibleElements\<close>, one step each: over a copy of the visible
  set (removals, where the raw remove may throw), over the query result (additions, which
  build the fragment and the list \<open>addedVirtualElements\<close>), and over that list (marking).
  Appending a node to the fragment takes it out of the container and moves it to the
  fragment's end. The counters \<open>removedCount\<close> and \<open>addedToFragmentCount\<close> only guard an
  empty branch and are left out.
\<close>

definition removalStep :: "string list \<Rightarrow> Virtualboy \<Rightarrow> string \<Rightarrow> Virtualboy Outcome" where
  "removalStep shouldBeVisibleIds st idToRemove =
     (if idToRemove \<notin> set shouldBeVisibleIds then
        (case map_of (elements st) idToRemove of
           None \<Rightarrow>
             Returned (st\<lparr>currentlyVisibleElements :=
                             setDelete (currentlyVisibleElements st) idToRemove\<rparr>)
         | Some virtualElement \<Rightarrow>
             if isVisible (objs st virtualElement) then
               (case originalRemoveChild st
                       (ElementNode (domElement (objs st virtualElement))) of
                  Threw e thrown \<Rightarrow> Threw e thrown
                | Returned st1 \<Rightarrow>
                    Returned
                      (st1\<lparr>objs := (objs st1)(virtualElement :=
                                      (objs st1 virtualElement)\<lparr>isVisible := False\<rparr>),
                           currentlyVisibleElements :=
                             setDelete (currentlyVisibleElements st1) idToRemove\<rparr>))
             else
               Returned (st\<lparr>currentlyVisibleElements :=
                               setDelete (currentlyVisibleElements st) idToRemove\<rparr>))
      else Returned st)"

definition additionStep ::
  "Virtualboy \<times> nat list \<times> nat list \<Rightarrow> nat \<Rightarrow> Virtualboy \<times> nat list \<times> nat list" where
  "additionStep acc virtualElement =
     (let (st, fragment, addedVirtualElements) = acc in
      if elemId (objs st virtualElement) \<notin> set (currentlyVisibleElements st) then
        (let domEl = domElement (objs st virtualElement);
             r = rect (objs st virtualElement);
             st1 = st\<lparr>document := (document st)(domEl := (document st domEl)
                        \<lparr>stylePosition := ''absolute'',
                         styleLeft := Px ((x r - virtualScrollLeft st) + scrollLeft st),
                         styleTop := Px ((y r - virtualScrollTop st) + scrollTop st),
                         styleWidth := Px (width r),
                         styleHeight := Px (height r),
                         styleDisplay :=
                           (if originalDisplay (objs st virtualElement) \<noteq> []
                            then originalDisplay (objs st virtualElement) else ''block'')\<rparr>),
                      children := removeAll (ElementNode domEl) (children st)\<rparr>
         in (st1, removeAll domEl fragment @ [domEl], addedVirtualElements @ [virtualElement]))
      else
        (case map_of (elements st) (elemId (objs st virtualElement)) of
           None \<Rightarrow> acc
         | Some ve \<Rightarrow>
             if \<not> isVisible (objs st ve)
             then (st\<lparr>objs := (objs st)(ve := (objs st ve)\<lparr>isVisible := True\<rparr>)\<rparr>,
                   fragment, addedVirtualElements)
             else acc))"

definition markStep :: "Virtualboy \<Rightarrow> nat \<Rightarrow> Virtualboy" where
  "markStep st virtualElement =
     st\<lparr>objs := (objs st)(virtualElement := (objs st virtualElement)\<lparr>isVisible := True\<rparr>),
        currentlyVisibleElements :=
          setAdd (currentlyVisibleElements st) (elemId (objs st virtualElement))\<rparr>"

text \<open>
  The viewport rectangle the refresh builds, for stating what it queries.
\<close>

definition viewportRect :: "Virtualboy \<Rightarrow> Rect" where
  "viewportRect st = \<lparr>x = virtualScrollLeft st, y = virtualScrollTop st,
                       width = clientWidth st, height = clientHeight st\<rparr>"

text \<open>
  What follows the removal loop: the additions, the raw append of the fragment when it
  holds a node, and the marking.
\<close>

definition attachAdditions :: "Virtualboy \<Rightarrow> nat list \<Rightarrow> Virtualboy" where
  "attachAdditions st1 elementsInViewport =
     (let (st2, fragment, addedVirtualElements) =
            foldl additionStep (st1, [], []) elementsInViewport;
          st3 = st2\<lparr>domCalls := domCalls st2 @
                       (if fragment \<noteq> []
                        then [OriginalAppendChild (FragmentNode fragment)] else []),
                     children :=
                       (if fragment \<noteq> []
                        then appended (children st2) (FragmentNode fragment)
                        else children st2)\<rparr>
      in foldl markStep st3 addedVirtualElements)"

definition updateVisibleElements :: "Virtualboy \<Rightarrow> Virtualboy Outcome" where
  "updateVisibleElements st =
     (let viewportRect = \<lparr>x = virtualScrollLeft st, y = virtualScrollTop st,
                          width = clientWidth st, height = clientHeight st\<rparr>;
          elementsInViewport = queryRange (objs st) (kdTree st) viewportRect;
          shouldBeVisibleIds = map (\<lambda>ve. elemId (objs st ve)) elementsInViewport
      in case foldOutcome (removalStep shouldBeVisibleIds) st (currentlyVisibleElements st) of
           Threw e thrown \<Rightarrow> Threw e thrown
         | Returned st1 \<Rightarrow> Returned (attachAdditions st1 elementsInViewport))"

text \<open>
  The callback \<open>handleScroll\<close> hands to \<open>requestAnimationFrame\<close>: the refresh, and after
  it the clearing of the flag, which a throwing refresh does not reach. An animation
  frame of the host runs every callback queued before it; what a callback throws is
  reported by the host and does not stop the frame.
\<close>

definition frameCallback :: "Virtualboy \<Rightarrow> Virtualboy Outcome" where
  "frameCallback st =
     (case updateVisibleElements st of
        Threw e thrown \<Rightarrow> Threw e thrown
      | Returned st1 \<Rightarrow> Returned (st1\<lparr>updateQueued := False\<rparr>))"

definition animationFrame :: "Virtualboy \<Rightarrow> Virtualboy" where
  "animationFrame st =
     (((\<lambda>s. stateOf (frameCallback s)) ^^ animationFrames st) (st\<lparr>animationFrames := 0\<rparr>))"

subsection \<open>The public queries\<close>

definition getVisibleElements :: "Virtualboy \<Rightarrow> nat list" where
  "getVisibleElements st =
     List.map_filter
       (\<lambda>vid. case map_of (elements st) vid of
                 None \<Rightarrow> None
               | Some virtualElement \<Rightarrow>
                   if isVisible (objs st virtualElement)
                   then Some (domElement (objs st virtualElement)) else None)
       (currentlyVisibleElements st)"

definition getElementsForRect :: "Virtualboy \<Rightarrow> Rect \<Rightarrow> nat list" where
  "getElementsForRect st queryRect =
     map (\<lambda>ve. domElement (objs st ve)) (queryRange (objs st) (kdTree st) queryRect)"

definition getElementsAt :: "Virtualboy \<Rightarrow> real \<Rightarrow> real \<Rightarrow> nat list" where
  "getElementsAt st px py =
     map (\<lambda>ve. domElement (objs st ve)) (queryPoint (objs st) (kdTree st) px py)"

subsection \<open>remeasure\<close>

text \<open>
  The loop that detaches what is visible (the same loop opens \<open>remeasure\<close> and
  \<open>destroy\<close>; its raw remove may throw), and the loop that measures and stacks every
  tracked element again and inserts it into the new tree. The source assigns \<open>width\<close>,
  \<open>height\<close>, \<open>x\<close>, \<open>y\<close> of the element's rectangle in place.
\<close>

definition hideStep :: "Virtualboy \<Rightarrow> string \<Rightarrow> Virtualboy Outcome" where
  "hideStep st vid =
     (case map_of (elements st) vid of
        None \<Rightarrow> Returned st
      | Some ve \<Rightarrow>
          if isVisible (objs st ve) then
            (case originalRemoveChild st (ElementNode (domElement (objs st ve))) of
               Threw e thrown \<Rightarrow> Threw e thrown
             | Returned st1 \<Rightarrow>
                 Returned (st1\<lparr>objs := (objs st1)(ve := (objs st1 ve)\<lparr>isVisible := False\<rparr>)\<rparr>))
          else Returned st)"

definition restackStep :: "Virtualboy \<times> real \<times> real \<Rightarrow> nat \<Rightarrow> Virtualboy \<times> real \<times> real" where
  "restackStep acc virtualElement =
     (let (st, newTotalVirtualHeight, newTotalVirtualWidth) = acc;
          dimensions = measureFunction st (domElement (objs st virtualElement));
          r1 = (rect (objs st virtualElement))
                 \<lparr>width := fst dimensions, height := snd dimensions,
                  x := 0, y := newTotalVirtualHeight\<rparr>;
          st1 = st\<lparr>objs := (objs st)(virtualElement :=
                                (objs st virtualElement)\<lparr>rect := r1\<rparr>)\<rparr>;
          st2 = st1\<lparr>kdTree := insert_kd (objs st1) (kdTree st1) virtualElement\<rparr>
      in (st2, newTotalVirtualHeight + height r1,
          max newTotalVirtualWidth (x r1 + width r1)))"

text \<open>
  Restoring the container's scroll offsets from the saved virtual offsets (the part of
  \<open>remeasure\<close> headed "Restore scroll position"), one block per axis. The sizer's style
  height and width were written by \<open>updateSizer\<close> as a number followed by \<open>px\<close>, which
  \<open>parseFloat\<close> reads back. The container keeps the offsets assigned to it.
\<close>

definition verticalScrollRestoration :: "real \<Rightarrow> Virtualboy \<Rightarrow> real" where
  "verticalScrollRestoration savedVirtualScrollTop st =
     (let top0 =
            (if totalVirtualHeight st \<le> MAX_SCROLL_HEIGHT then savedVirtualScrollTop
             else
               (let parentClientHeight = clientHeight st;
                    maxVirtualScrollTop = totalVirtualHeight st - parentClientHeight;
                    scrollPercentageY0 =
                      (if maxVirtualScrollTop > 0
                       then savedVirtualScrollTop / maxVirtualScrollTop else 0);
                    scrollPercentageY = max 0 (min 1 scrollPercentageY0);
                    sizerEffectiveHeight = MAX_SCROLL_HEIGHT;
                    maxScrollTopForSizer = sizerEffectiveHeight - parentClientHeight
                in scrollPercentageY *
                     (if maxScrollTopForSizer > 0 then maxScrollTopForSizer else 0)));
          top1 = max 0 top0;
          actualSizerHeightForScroll =
            (case sizerElement st of None \<Rightarrow> 0 | Some sz \<Rightarrow> sizerHeightPx sz);
          maxParentScrollTop = actualSizerHeightForScroll - clientHeight st
      in if maxParentScrollTop > 0 then min top1 maxParentScrollTop else 0)"

definition horizontalScrollRestoration :: "real \<Rightarrow> Virtualboy \<Rightarrow> real" where
  "horizontalScrollRestoration savedVirtualScrollLeft st =
     (let left0 =
            (if totalVirtualWidth st \<le> MAX_SCROLL_WIDTH then savedVirtualScrollLeft
             else
               (let parentClientWidth = clientWidth st;
                    maxVirtualScrollLeft = totalVirtualWidth st - parentClientWidth;
                    scrollPercentageX0 =
                      (if maxVirtualScrollLeft > 0
                       then savedVirtualScrollLeft / maxVirtualScrollLeft else 0);
                    scrollPercentageX = max 0 (min 1 scrollPercentageX0);
                    sizerEffectiveWidth = MAX_SCROLL_WIDTH;
                    maxScrollLeftForSizer = sizerEffectiveWidth - parentClientWidth
                in scrollPercentageX *
                     (if maxScrollLeftForSizer > 0 then maxScrollLeftForSizer else 0)));
          left1 = max 0 left0;
          actualSizerWidthForScroll =
            (case sizerElement st of None \<Rightarrow> 0 | Some sz \<Rightarrow> sizerWidthPx sz);
          maxParentScrollLeft = actualSizerWidthForScroll - clientWidth st
      in if maxParentScrollLeft > 0 then min left1 maxParentScrollLeft else 0)"

definition restoreScroll :: "real \<Rightarrow> real \<Rightarrow> Virtualboy \<Rightarrow> Virtualboy" where
  "restoreScroll savedVirtualScrollTop savedVirtualScrollLeft st =
     st\<lparr>scrollTop := verticalScrollRestoration savedVirtualScrollTop st,
        scrollLeft := horizontalScrollRestoration savedVirtualScrollLeft st\<rparr>"

text \<open>
  Recomputing the virtual offsets from the restored container offsets (the last part of
  \<open>remeasure\<close> before the refresh), one block per axis.
\<close>

definition verticalScrollRecalculation :: "Virtualboy \<Rightarrow> real" where
  "verticalScrollRecalculation st =
     (let top1 =
            (if totalVirtualHeight st \<le> MAX_SCROLL_HEIGHT then scrollTop st
             else
               (let sizerEffectiveHeight = MAX_SCROLL_HEIGHT;
                    parentClientHeight = clientHeight st;
                    maxScrollTopForSizer = sizerEffectiveHeight - parentClientHeight
                in if maxScrollTopForSizer \<le> 0 then 0
                   else
                     (let currentScrollTopForSizer = scrollTop st;
                          scrollPercentageY =
                            max 0 (min 1 (currentScrollTopForSizer / maxScrollTopForSizer));
                          maxVirtualScrollTopVal = totalVirtualHeight st - parentClientHeight
                      in scrollPercentageY *
                           (if maxVirtualScrollTopVal > 0 then maxVirtualScrollTopVal else 0))));
          top2 = max 0 top1;
          maxPossibleVirtualScrollTopRecalc = totalVirtualHeight st - clientHeight st
      in min top2 (if maxPossibleVirtualScrollTopRecalc > 0
                   then maxPossibleVirtualScrollTopRecalc else 0))"

definition horizontalScrollRecalculation :: "Virtualboy \<Rightarrow> real" where
  "horizontalScrollRecalculation st =
     (let left1 =
            (if totalVirtualWidth st \<le> MAX_SCROLL_WIDTH then scrollLeft st
             else
               (let sizerEffectiveWidth = MAX_SCROLL_WIDTH;
                    parentClientWidth = clientWidth st;
                    maxScrollLeftForSizer = sizerEffectiveWidth - parentClientWidth
                in if maxScrollLeftForSizer \<le> 0 then 0
                   else
                     (let currentScrollLeftForSizer = scrollLeft st;
                          scrollPercentageX =
                            max 0 (min 1 (currentScrollLeftForSizer / maxScrollLeftForSizer));
                          maxVirtualScrollLeftVal = totalVirtualWidth st - parentClientWidth
                      in scrollPercentageX *
                           (if maxVirtualScrollLeftVal > 0 then maxVirtualScrollLeftVal else 0))));
          left2 = max 0 left1;
          maxPossibleVirtualScrollLeftRecalc = totalVirtualWidth st - clientWidth st
      in min left2 (if maxPossibleVirtualScrollLeftRecalc > 0
                    then maxPossibleVirtualScrollLeftRecalc else 0))"

definition recalcVirtualScroll :: "Virtualboy \<Rightarrow> Virtualboy" where
  "recalcVirtualScroll st =
     st\<lparr>virtualScrollTop := verticalScrollRecalculation st,
        virtualScrollLeft := horizontalScrollRecalculation st\<rparr>"

text \<open>
  What \<open>remeasure\<close> does between the detaching loop and the restoring of the scroll
  offsets (clearing the visible set, the new tree and the stacking loop, which make
  \<open>restackLoop\<close>; then the new totals and \<open>updateSizer\<close>), the first half of \<open>remeasure\<close>
  up to there, and the whole of it.
\<close>

definition restackLoop :: "Virtualboy \<Rightarrow> Virtualboy \<times> real \<times> real" where
  "restackLoop st =
     (let st1 = st\<lparr>currentlyVisibleElements := []\<rparr>;
          st2 = st1\<lparr>kdTree := Null\<rparr>;
          allVirtualElements = map snd (elements st2)
      in foldl restackStep (st2, 0, clientWidth st2) allVirtualElements)"

definition restack :: "Virtualboy \<Rightarrow> Virtualboy" where
  "restack st =
     (let (st3, newTotalVirtualHeight, newTotalVirtualWidth) = restackLoop st
      in updateSizer (st3\<lparr>totalVirtualHeight := newTotalVirtualHeight,
                          totalVirtualWidth := newTotalVirtualWidth\<rparr>))"

definition relayout :: "Virtualboy \<Rightarrow> Virtualboy Outcome" where
  "relayout st =
     (case foldOutcome hideStep st (currentlyVisibleElements st) of
        Threw e thrown \<Rightarrow> Threw e thrown
      | Returned st1 \<Rightarrow> Returned (restack st1))"

definition remeasure :: "Virtualboy \<Rightarrow> Virtualboy Outcome" where
  "remeasure st =
     (let savedVirtualScrollTop = virtualScrollTop st;
          savedVirtualScrollLeft = virtualScrollLeft st
      in case relayout st of
           Threw e thrown \<Rightarrow> Threw e thrown
         | Returned st1 \<Rightarrow>
             updateVisibleElements
               (recalcVirtualScroll
                  (restoreScroll savedVirtualScrollTop savedVirtualScrollLeft st1)))"

subsection \<open>destroy and the constructor\<close>

text \<open>
  The scroll listener, the interception of the container's methods and the container's
  own position style are host wiring and not part of the state. \<open>destroy\<close> removes the
  sizer only if it is a child of the container.
\<close>

definition destroy :: "Virtualboy \<Rightarrow> Virtualboy Outcome" where
  "destroy st =
     (case foldOutcome hideStep st (currentlyVisibleElements st) of
        Threw e thrown \<Rightarrow> Threw e thrown
      | Returned hidden \<Rightarrow>
          Returned
            (let st1 = hidden\<lparr>currentlyVisibleElements := []\<rparr>;
                 st2 = st1\<lparr>elements := [], kdTree := Null,
                           virtualScrollLeft := 0, virtualScrollTop := 0,
                           totalVirtualHeight := 0, totalVirtualWidth := clientWidth st1\<rparr>;
                 sizerIsChild = (sizerElement st2 \<noteq> None \<and> SizerNode \<in> set (children st2));
                 st3 = st2\<lparr>domCalls := domCalls st2 @
                              (if sizerIsChild then [OriginalRemoveChild SizerNode] else []),
                            children :=
                              (if sizerIsChild then removeAll SizerNode (children st2)
                               else children st2)\<rparr>
             in st3\<lparr>sizerElement := None\<rparr>))"

definition noElement :: VirtualElement where
  "noElement = \<lparr>elemId = [], domElement = 0,
                rect = \<lparr>x = 0, y = 0, width = 0, height = 0\<rparr>,
                isVisible = False, originalDisplay = []\<rparr>"

text \<open>
  \<open>new Virtualboy(parentElement, customMeasureFn)\<close> for a container with the given scroll
  offsets, client size and element children, in a document \<open>doc\<close>; \<open>measureFn\<close> is the
  measurement in force. \<open>initialState\<close> is the state once the fields are initialised and
  the sizer is appended after the container's children, when no \<open>VirtualElement\<close> object
  exists yet; the constructor then runs \<open>discoverInitialElements\<close> over the children,
  \<open>updateVisibleElements\<close> and \<open>updateSizer\<close>.
\<close>

definition initialState ::
  "real \<Rightarrow> real \<Rightarrow> real \<Rightarrow> real \<Rightarrow> (nat \<Rightarrow> HTMLElement) \<Rightarrow> nat list \<Rightarrow> (nat \<Rightarrow> real \<times> real)
   \<Rightarrow> Virtualboy" where
  "initialState sTop sLeft cWidth cHeight doc initialChildren measureFn =
     \<lparr>scrollTop = sTop, scrollLeft = sLeft,
      clientWidth = cWidth, clientHeight = cHeight,
      children = map ElementNode initialChildren @ [SizerNode],
      document = doc, domCalls = [OriginalAppendChild SizerNode],
      animationFrames = 0, warnings = [],
      objs = (\<lambda>ref. noElement), objCount = 0,
      measureFunction = measureFn, kdTree = Null, elements = [],
      virtualScrollTop = 0, virtualScrollLeft = 0,
      totalVirtualWidth = cWidth, totalVirtualHeight = 0,
      nextElementId = 0, currentlyVisibleElements = [],
      sizerElement = Some \<lparr>sizerHeightPx = 0, sizerWidthPx = 0\<rparr>,
      updateQueued = False\<rparr>"

definition discoverInitialElements :: "Virtualboy \<Rightarrow> nat list \<Rightarrow> Virtualboy Outcome" where
  "discoverInitialElements st initialChildren =
     foldOutcome (\<lambda>s child. handleElementAdded s child True) st initialChildren"

definition constructor ::
  "real \<Rightarrow> real \<Rightarrow> real \<Rightarrow> real \<Rightarrow> (nat \<Rightarrow> HTMLElement) \<Rightarrow> nat list \<Rightarrow> (nat \<Rightarrow> real \<times> real)
   \<Rightarrow> Virtualboy Outcome" where
  "constructor sTop sLeft cWidth cHeight doc initialChildren measureFn =
     (case discoverInitialElements
             (initialState sTop sLeft cWidth cHeight doc initialChildren measureFn)
             initialChildren of
        Threw e thrown \<Rightarrow> Threw e thrown
      | Returned st1 \<Rightarrow>
          (case updateVisibleElements st1 of
             Threw e thrown \<Rightarrow> Threw e thrown
           | Returned st2 \<Rightarrow> Returned (updateSizer st2)))"

section \<open>Runs of the manager\<close>

text \<open>
  The states a manager goes through: it is constructed (a constructor that throws hands
  no manager to its caller); the container's intercepted \<open>appendChild\<close> and
  \<open>insertBefore\<close> call \<open>handleElementAdded\<close> and \<open>removeChild\<close> calls
  \<open>handleElementRemoved\<close>; the host delivers scroll events and animation frames; the
  caller calls \<open>remeasure\<close> and \<open>destroy\<close>; and the host may change its nodes, the
  container's client size and what a measurement returns at any time. A call that throws
  leaves the manager in the state it had reached, and the run goes on from there.
\<close>

inductive reachable :: "Virtualboy \<Rightarrow> bool" where
  created:
    "constructor sTop sLeft cWidth cHeight doc initialChildren measureFn = Returned st
     \<Longrightarrow> reachable st"
| added: "reachable st \<Longrightarrow> reachable (stateOf (handleElementAdded st el False))"
| removed: "reachable st \<Longrightarrow> reachable (stateOf (handleElementRemoved st el))"
| scrolled: "reachable st \<Longrightarrow> reachable (scrollEvent st offsets)"
| frame: "reachable st \<Longrightarrow> reachable (animationFrame st)"
| remeasured: "reachable st \<Longrightarrow> reachable (stateOf (remeasure st))"
| destroyed: "reachable st \<Longrightarrow> reachable (stateOf (destroy st))"
| hostChanged:
    "reachable st \<Longrightarrow>
     reachable (st\<lparr>document := doc, clientWidth := cWidth, clientHeight := cHeight,
                  measureFunction := measureFn\<rparr>)"

section \<open>Notions used in the statements\<close>

text \<open>
  The fields that none of the loops over elements (in \<open>updateVisibleElements\<close>,
  \<open>remeasure\<close> and \<open>destroy\<close>) writes: everything but the objects, the tree, the visible
  set, the document, the container's children and the raw calls.
\<close>

definition engineFields ::
  "Virtualboy \<Rightarrow>
   (real \<times> real \<times> real \<times> real) \<times> (nat \<times> bool) \<times> (string \<times> nat) list \<times>
   (real \<times> real \<times> real \<times> real) \<times> Sizer option \<times> nat \<times> nat \<times>
   (nat \<Rightarrow> real \<times> real) \<times> string list" where
  "engineFields st =
     ((scrollTop st, scrollLeft st, clientWidth st, clientHeight st),
      (animationFrames st, updateQueued st), elements st,
      (virtualScrollTop st, virtualScrollLeft st, totalVirtualWidth st, totalVirtualHeight st),
      sizerElement st, nextElementId st, objCount st, measureFunction st, warnings st)"

text \<open>
  Everything of a tracked object but its visibility flag: the refresh never writes it.
\<close>

definition objectIdentity :: "Virtualboy \<Rightarrow> nat \<Rightarrow> string \<times> nat \<times> Rect \<times> string" where
  "objectIdentity st v =
     (elemId (objs st v), domElement (objs st v), rect (objs st v), originalDisplay (objs st v))"

text \<open>
  What holds of the map's keys and of the frame queue in every state of a run: no key is
  the empty string, at most one callback waits for the next animation frame, and
  \<open>updateQueued\<close> is set while one waits.
\<close>

definition runInvariant :: "Virtualboy \<Rightarrow> bool" where
  "runInvariant st =
     (map_of (elements st) [] = None \<and> animationFrames st \<le> 1 \<and>
      (updateQueued st \<or> animationFrames st = 0))"

text \<open>
  The consistency of the visible set, in the claim's words: the ids in
  \<open>currentlyVisibleElements\<close> are exactly the ids of the tracked-item map whose item is
  marked visible.
\<close>

definition visibleSetConsistent :: "Virtualboy \<Rightarrow> bool" where
  "visibleSetConsistent st =
     (set (currentlyVisibleElements st) =
      set (map fst (filter (\<lambda>entry. isVisible (objs st (snd entry))) (elements st))))"

section \<open>Example containers\<close>

definition blankNode :: HTMLElement where
  "blankNode = \<lparr>nodeId = [], stylePosition = [], styleVisibility = [], styleDisplay = [],
                styleLeft = Str [], styleTop = Str [], styleWidth = Str [], styleHeight = Str []\<rparr>"

text \<open>
  A document in which node 0 carries the id \<open>virtual-element-0\<close> and no other node has an
  id; a container of client size 800 by 600 whose only child is node 0, with every node
  measuring 100 by 1000; the state of the constructor once it has discovered node 0
  (\<open>exampleTracked\<close>); and the manager constructed (\<open>exampleManager\<close>).
\<close>

definition exampleDocument :: "nat \<Rightarrow> HTMLElement" where
  "exampleDocument = (\<lambda>n. blankNode)(0 := blankNode\<lparr>nodeId := ''virtual-element-0''\<rparr>)"

definition exampleTracked :: Virtualboy where
  "exampleTracked =
     stateOf (handleElementAdded
                (initialState 0 0 800 600 exampleDocument [0] (\<lambda>n. (100, 1000))) 0 True)"

definition exampleManager :: Virtualboy where
  "exampleManager = stateOf (constructor 0 0 800 600 exampleDocument [0] (\<lambda>n. (100, 1000)))"

text \<open>
  A run from the example manager: nodes 1 and 2, which have no id, are appended to the
  container (\<open>collidedManager\<close>, \<open>crowdedManager\<close>); a scroll event at offset 0 and the
  animation frame after it (\<open>crowdedShown\<close>); a scroll event at offset 2400
  (\<open>crowdedScrolled\<close>); and the state in which the next animation frame runs its callback
  (\<open>crowdedFrame\<close>).
\<close>

definition collidedManager :: Virtualboy where
  "collidedManager = stateOf (handleElementAdded exampleManager 1 False)"

definition crowdedManager :: Virtualboy where
  "crowdedManager = stateOf (handleElementAdded collidedManager 2 False)"

definition crowdedShown :: Virtualboy where
  "crowdedShown = animationFrame (scrollEvent crowdedManager (0, 0))"

definition crowdedScrolled :: Virtualboy where
  "crowdedScrolled = scrollEvent crowdedShown (2400, 0)"

definition crowdedFrame :: Virtualboy where
  "crowdedFrame = crowdedScrolled\<lparr>animationFrames := 0\<rparr>"










section \<open>What each operation writes\<close>

subsection \<open>Outcomes and loops that may throw\<close>

lemma returned_stateOf: "returned r \<Longrightarrow> r = Returned (stateOf r)"
  by (cases r) simp_all

lemma foldOutcome_single: "foldOutcome f s [a] = f s a"
  by (cases "f s a") simp_all

lemma foldOutcome_preserved:
  assumes "\<And>s a. g (stateOf (f s a)) = g s"
  shows "g (stateOf (foldOutcome f s as)) = g s"
proof (induction as arbitrary: s)
  case Nil
  show ?case by simp
next
  case (Cons a as)
  show ?case
  proof (cases "f s a")
    case (Returned t)
    with assms[of s a] have "g t = g s" by simp
    with Cons[of t] Returned show ?thesis by simp
  next
    case (Threw e t)
    with assms[of s a] show ?thesis by simp
  qed
qed

lemma foldOutcome_invariant:
  assumes "\<And>s a. P s \<Longrightarrow> P (stateOf (f s a))" and "P s"
  shows "P (stateOf (foldOutcome f s as))"
  using assms(2)
proof (induction as arbitrary: s)
  case Nil
  then show ?case by simp
next
  case (Cons a as)
  show ?case
  proof (cases "f s a")
    case (Returned t)
    with assms(1)[OF Cons.prems, of a] have "P t" by simp
    with Cons.IH[of t] Returned show ?thesis by simp
  next
    case (Threw e t)
    with assms(1)[OF Cons.prems, of a] show ?thesis by simp
  qed
qed

subsection \<open>The loops over elements\<close>

text \<open>
  None of the loop bodies writes an engine field, and none writes anything of a tracked
  object but its visibility flag, whether it returns or throws.
\<close>

lemma engineFields_simps [simp]:
  "engineFields (st\<lparr>kdTree := t\<rparr>) = engineFields st"
  "engineFields (st\<lparr>currentlyVisibleElements := c\<rparr>) = engineFields st"
  "engineFields (st\<lparr>objs := h\<rparr>) = engineFields st"
  "engineFields (st\<lparr>document := d\<rparr>) = engineFields st"
  "engineFields (st\<lparr>domCalls := v\<rparr>) = engineFields st"
  "engineFields (st\<lparr>children := cs\<rparr>) = engineFields st"
  by (simp_all add: engineFields_def)

lemma objectIdentity_simps [simp]:
  "objectIdentity (st\<lparr>kdTree := t\<rparr>) = objectIdentity st"
  "objectIdentity (st\<lparr>currentlyVisibleElements := c\<rparr>) = objectIdentity st"
  "objectIdentity (st\<lparr>document := d\<rparr>) = objectIdentity st"
  "objectIdentity (st\<lparr>domCalls := v\<rparr>) = objectIdentity st"
  "objectIdentity (st\<lparr>children := cs\<rparr>) = objectIdentity st"
  by (rule ext, simp add: objectIdentity_def)+

lemma originalRemoveChild_engine:
  "engineFields (stateOf (originalRemoveChild st n)) = engineFields st"
  by (simp add: originalRemoveChild_def)

lemma originalRemoveChild_untouched [simp]:
  "objs (stateOf (originalRemoveChild st n)) = objs st"
  "document (stateOf (originalRemoveChild st n)) = document st"
  "kdTree (stateOf (originalRemoveChild st n)) = kdTree st"
  "currentlyVisibleElements (stateOf (originalRemoveChild st n)) = currentlyVisibleElements st"
  "elements (stateOf (originalRemoveChild st n)) = elements st"
  by (simp_all add: originalRemoveChild_def)

lemma removalStep_engine: "engineFields (stateOf (removalStep sh st i)) = engineFields st"
  by (simp add: removalStep_def originalRemoveChild_def split: option.splits)

lemma additionStep_engine: "engineFields (fst (additionStep acc a)) = engineFields (fst acc)"
  by (simp add: additionStep_def Let_def split_def split: option.splits)

lemma markStep_engine: "engineFields (markStep st a) = engineFields st"
  by (simp add: markStep_def)

lemma hideStep_engine: "engineFields (stateOf (hideStep st i)) = engineFields st"
  by (simp add: hideStep_def originalRemoveChild_def split: option.splits)

lemma restackStep_engine: "engineFields (fst (restackStep acc a)) = engineFields (fst acc)"
  by (simp add: restackStep_def Let_def split_def)

lemma removalLoop_engine:
  "engineFields (stateOf (foldOutcome (removalStep sh) st ids)) = engineFields st"
  by (rule foldOutcome_preserved[where g = engineFields]) (rule removalStep_engine)

lemma foldl_additionStep_engine:
  "engineFields (fst (foldl additionStep acc vs)) = engineFields (fst acc)"
  by (induction vs arbitrary: acc) (simp_all add: additionStep_engine)

lemma foldl_markStep_engine:
  "engineFields (foldl markStep st vs) = engineFields st"
  by (induction vs arbitrary: st) (simp_all add: markStep_engine)

lemma hideLoop_engine:
  "engineFields (stateOf (foldOutcome hideStep st ids)) = engineFields st"
  by (rule foldOutcome_preserved[where g = engineFields]) (rule hideStep_engine)

lemma foldl_restackStep_engine:
  "engineFields (fst (foldl restackStep acc vs)) = engineFields (fst acc)"
  by (induction vs arbitrary: acc) (simp_all add: restackStep_engine)

lemma engineFields_fields:
  assumes "engineFields s = engineFields t"
  shows "scrollTop s = scrollTop t" and "scrollLeft s = scrollLeft t"
    and "clientWidth s = clientWidth t" and "clientHeight s = clientHeight t"
    and "animationFrames s = animationFrames t" and "updateQueued s = updateQueued t"
    and "elements s = elements t"
    and "virtualScrollTop s = virtualScrollTop t" and "virtualScrollLeft s = virtualScrollLeft t"
    and "totalVirtualWidth s = totalVirtualWidth t"
    and "totalVirtualHeight s = totalVirtualHeight t"
    and "sizerElement s = sizerElement t" and "nextElementId s = nextElementId t"
    and "objCount s = objCount t" and "measureFunction s = measureFunction t"
    and "warnings s = warnings t"
  using assms by (simp_all add: engineFields_def)

lemmas hideLoop_fields [simp] = engineFields_fields[OF hideLoop_engine]

lemmas removalLoop_fields [simp] = engineFields_fields[OF removalLoop_engine]




lemma removalStep_document: "document (stateOf (removalStep sh st i)) = document st"
  by (simp add: removalStep_def originalRemoveChild_def split: option.splits)



lemma removalLoop_document:
  "document (stateOf (foldOutcome (removalStep sh) st ids)) = document st"
  by (rule foldOutcome_preserved[where g = document]) (rule removalStep_document)


lemma hideStep_identity: "objectIdentity (stateOf (hideStep st i)) = objectIdentity st"
  by (rule ext)
     (simp add: hideStep_def originalRemoveChild_def objectIdentity_def split: option.splits)

lemma hideLoop_identity:
  "objectIdentity (stateOf (foldOutcome hideStep st ids)) = objectIdentity st"
  by (rule foldOutcome_preserved[where g = objectIdentity]) (rule hideStep_identity)







subsection \<open>updateVisibleElements\<close>

text \<open>
  The refresh leaves the engine fields alone, whether it returns or throws; it throws
  only in its removal loop. What one addition step leaves in the document at a node
  decides the node's style after the whole refresh.
\<close>

lemma attachAdditions_engine: "engineFields (attachAdditions st q) = engineFields st"
  by (simp add: attachAdditions_def Let_def split_def foldl_markStep_engine
        foldl_additionStep_engine)


lemma updateVisibleElements_unfold:
  assumes "queryRange (objs st) (kdTree st) (viewportRect st) = q"
  shows "updateVisibleElements st =
           (case foldOutcome (removalStep (map (\<lambda>ve. elemId (objs st ve)) q)) st
                   (currentlyVisibleElements st) of
              Threw e thrown \<Rightarrow> Threw e thrown
            | Returned st1 \<Rightarrow> Returned (attachAdditions st1 q))"
  unfolding assms[symmetric] updateVisibleElements_def viewportRect_def Let_def by (rule refl)

lemma updateVisibleElements_cases:
  obtains (returns) st1 where
      "foldOutcome (removalStep (map (\<lambda>ve. elemId (objs st ve))
                                   (queryRange (objs st) (kdTree st) (viewportRect st))))
         st (currentlyVisibleElements st) = Returned st1"
      "updateVisibleElements st =
         Returned (attachAdditions st1 (queryRange (objs st) (kdTree st) (viewportRect st)))"
    | (throws) e thrown where
      "foldOutcome (removalStep (map (\<lambda>ve. elemId (objs st ve))
                                   (queryRange (objs st) (kdTree st) (viewportRect st))))
         st (currentlyVisibleElements st) = Threw e thrown"
      "updateVisibleElements st = Threw e thrown"
proof (cases "foldOutcome (removalStep (map (\<lambda>ve. elemId (objs st ve))
                                   (queryRange (objs st) (kdTree st) (viewportRect st))))
         st (currentlyVisibleElements st)")
  case (Returned st1)
  then show ?thesis using returns[of st1] by (simp add: updateVisibleElements_unfold[OF refl])
next
  case (Threw e thrown)
  then show ?thesis using throws[of e thrown] by (simp add: updateVisibleElements_unfold[OF refl])
qed

lemma updateVisibleElements_engine:
  "engineFields (stateOf (updateVisibleElements st)) = engineFields st"
proof (cases st rule: updateVisibleElements_cases)
  case (returns st1)
  with removalLoop_engine[of "map (\<lambda>ve. elemId (objs st ve))
                                (queryRange (objs st) (kdTree st) (viewportRect st))"
                             st "currentlyVisibleElements st"]
  show ?thesis by (simp add: attachAdditions_engine)
next
  case (throws e thrown)
  with removalLoop_engine[of "map (\<lambda>ve. elemId (objs st ve))
                                (queryRange (objs st) (kdTree st) (viewportRect st))"
                             st "currentlyVisibleElements st"]
  show ?thesis by simp
qed

lemmas updateVisibleElements_fields [simp] = engineFields_fields[OF updateVisibleElements_engine]

lemma updateVisibleElements_nothing_visible:
  assumes "currentlyVisibleElements st = []"
  shows "updateVisibleElements st =
           Returned (attachAdditions st (queryRange (objs st) (kdTree st) (viewportRect st)))"
  using assms by (simp add: updateVisibleElements_unfold[OF refl])

lemma queryRange_single:
  "queryRange heap (KDNode v a Null Null) q = (if intersects (rect (heap v)) q then [v] else [])"
  by (simp add: queryRange_def Let_def)

lemma attachAdditions_entering:
  assumes "elemId (objs st v) \<notin> set (currentlyVisibleElements st)"
  shows "currentlyVisibleElements (attachAdditions st [v])
           = currentlyVisibleElements st @ [elemId (objs st v)]"
    and "objs (attachAdditions st [v]) = (objs st)(v := (objs st v)\<lparr>isVisible := True\<rparr>)"
    and "kdTree (attachAdditions st [v]) = kdTree st"
    and "domCalls (attachAdditions st [v]) =
           domCalls st @ [OriginalAppendChild (FragmentNode [domElement (objs st v)])]"
    and "children (attachAdditions st [v]) =
           removeAll (ElementNode (domElement (objs st v))) (children st)
             @ [ElementNode (domElement (objs st v))]"
    and "document (attachAdditions st [v]) =
           (document st)(domElement (objs st v) := (document st (domElement (objs st v)))
              \<lparr>stylePosition := ''absolute'',
               styleLeft := Px ((x (rect (objs st v)) - virtualScrollLeft st) + scrollLeft st),
               styleTop := Px ((y (rect (objs st v)) - virtualScrollTop st) + scrollTop st),
               styleWidth := Px (width (rect (objs st v))),
               styleHeight := Px (height (rect (objs st v))),
               styleDisplay :=
                 (if originalDisplay (objs st v) \<noteq> []
                  then originalDisplay (objs st v) else ''block'')\<rparr>)"
  using assms
  by (simp_all add: attachAdditions_def additionStep_def markStep_def setAdd_def Let_def)

lemmas attachAdditions_fields [simp] = engineFields_fields[OF attachAdditions_engine]

lemma attachAdditions_marks:
  assumes "elemId (objs st v) \<in> set (currentlyVisibleElements st)"
      and "map_of (elements st) (elemId (objs st v)) = Some w"
      and "\<not> isVisible (objs st w)"
  shows "currentlyVisibleElements (attachAdditions st [v]) = currentlyVisibleElements st"
    and "objs (attachAdditions st [v]) = (objs st)(w := (objs st w)\<lparr>isVisible := True\<rparr>)"
    and "kdTree (attachAdditions st [v]) = kdTree st"
    and "domCalls (attachAdditions st [v]) = domCalls st"
    and "children (attachAdditions st [v]) = children st"
    and "document (attachAdditions st [v]) = document st"
  using assms
  by (simp_all add: attachAdditions_def additionStep_def Let_def)

lemma removalStep_kept:
  assumes "i \<in> set sh"
  shows "removalStep sh st i = Returned st"
  using assms by (simp add: removalStep_def)

lemma removalStep_throws:
  assumes "i \<notin> set sh"
      and "map_of (elements st) i = Some v"
      and "isVisible (objs st v)"
      and "ElementNode (domElement (objs st v)) \<notin> set (children st)"
  shows "removalStep sh st i =
           Threw NotFoundError
             (st\<lparr>domCalls := domCalls st
                     @ [OriginalRemoveChild (ElementNode (domElement (objs st v)))]\<rparr>)"
  using assms by (simp add: removalStep_def originalRemoveChild_def)


lemma updateVisibleElements_single:
  assumes "kdTree st = KDNode v a Null Null"
      and "currentlyVisibleElements st = []"
      and "intersects (rect (objs st v)) (viewportRect st)"
  shows "updateVisibleElements st = Returned (attachAdditions st [v])"
  using assms by (simp add: updateVisibleElements_nothing_visible queryRange_single)





subsection \<open>The scroll calculations\<close>

text \<open>
  The forward mapping in closed form, and the arithmetic of restoring after it.
\<close>

lemma clamp_scale:
  fixes m q :: real
  assumes "0 \<le> m"
  shows "0 \<le> max 0 (min 1 q) * m" and "max 0 (min 1 q) * m \<le> m"
proof -
  have p: "0 \<le> max 0 (min 1 q)" "max 0 (min 1 q) \<le> 1" by simp_all
  show "0 \<le> max 0 (min 1 q) * m" using p(1) assms by simp
  show "max 0 (min 1 q) * m \<le> m" using mult_right_mono[OF p(2) assms] by simp
qed

lemma clamp_scale_fix:
  fixes m q :: real
  assumes "0 \<le> m"
  shows "min (max 0 (max 0 (min 1 q) * m)) m = max 0 (min 1 q) * m"
  using clamp_scale[OF assms, of q] by simp

lemma forward_offset:
  fixes h c T M :: real
  shows "min (max 0
           (if T \<le> M then h
            else if M - c \<le> 0 then 0
            else max 0 (min 1 (if 0 < M - c then h / (M - c) else 0))
                 * (if 0 < T - c then T - c else 0)))
           (if 0 < T - c then T - c else 0)
         = (if T \<le> M then min (max 0 h) (max (T - c) 0)
            else if M - c \<le> 0 then 0
            else max 0 (min 1 (h / (M - c))) * max (T - c) 0)"
proof -
  have m: "(if 0 < T - c then T - c else 0) = max (T - c) 0" by simp
  show ?thesis
  proof (cases "T \<le> M")
    case True
    then show ?thesis unfolding m by simp
  next
    case False
    show ?thesis
    proof (cases "M - c \<le> 0")
      case True
      with False show ?thesis unfolding m by simp
    next
      case False2: False
      have "min (max 0 (max 0 (min 1 (h / (M - c))) * max (T - c) 0)) (max (T - c) 0)
            = max 0 (min 1 (h / (M - c))) * max (T - c) 0"
        by (rule clamp_scale_fix) simp
      with False False2 show ?thesis unfolding m by simp
    qed
  qed
qed

lemma verticalScrollCalculation_eq:
  "verticalScrollCalculation st =
     (if totalVirtualHeight st \<le> MAX_SCROLL_HEIGHT
      then min (max 0 (scrollTop st)) (max (totalVirtualHeight st - clientHeight st) 0)
      else if MAX_SCROLL_HEIGHT - clientHeight st \<le> 0 then 0
      else max 0 (min 1 (scrollTop st / (MAX_SCROLL_HEIGHT - clientHeight st)))
             * max (totalVirtualHeight st - clientHeight st) 0)"
  unfolding verticalScrollCalculation_def Let_def by (rule forward_offset)

lemma horizontalScrollCalculation_eq:
  "horizontalScrollCalculation st =
     (if totalVirtualWidth st \<le> MAX_SCROLL_WIDTH
      then min (max 0 (scrollLeft st)) (max (totalVirtualWidth st - clientWidth st) 0)
      else if MAX_SCROLL_WIDTH - clientWidth st \<le> 0 then 0
      else max 0 (min 1 (scrollLeft st / (MAX_SCROLL_WIDTH - clientWidth st)))
             * max (totalVirtualWidth st - clientWidth st) 0)"
  unfolding horizontalScrollCalculation_def Let_def by (rule forward_offset)

lemma handleScroll_fields [simp]:
  "virtualScrollTop (handleScroll st) = verticalScrollCalculation st"
  "virtualScrollLeft (handleScroll st) = horizontalScrollCalculation st"
  "updateQueued (handleScroll st) = True"
  "animationFrames (handleScroll st) = animationFrames st + (if updateQueued st then 0 else 1)"
  "scrollTop (handleScroll st) = scrollTop st"
  "scrollLeft (handleScroll st) = scrollLeft st"
  "clientWidth (handleScroll st) = clientWidth st"
  "clientHeight (handleScroll st) = clientHeight st"
  "totalVirtualWidth (handleScroll st) = totalVirtualWidth st"
  "totalVirtualHeight (handleScroll st) = totalVirtualHeight st"
  "sizerElement (handleScroll st) = sizerElement st"
  "elements (handleScroll st) = elements st"
  "kdTree (handleScroll st) = kdTree st"
  "objs (handleScroll st) = objs st"
  "currentlyVisibleElements (handleScroll st) = currentlyVisibleElements st"
  "measureFunction (handleScroll st) = measureFunction st"
  "document (handleScroll st) = document st"
  "children (handleScroll st) = children st"
  "domCalls (handleScroll st) = domCalls st"
  "nextElementId (handleScroll st) = nextElementId st"
  "objCount (handleScroll st) = objCount st"
  "warnings (handleScroll st) = warnings st"
  by (simp_all add: handleScroll_def Let_def)

lemma scrollCalculation_handleScroll [simp]:
  "verticalScrollCalculation (handleScroll st) = verticalScrollCalculation st"
  "horizontalScrollCalculation (handleScroll st) = horizontalScrollCalculation st"
  by (simp_all add: verticalScrollCalculation_def horizontalScrollCalculation_def Let_def)

lemma restore_forward_offset:
  fixes h c T M :: real
  assumes "0 \<le> h" and "h \<le> max (min T M - c) 0"
  defines "V \<equiv> (if T \<le> M then min (max 0 h) (max (T - c) 0)
                 else if M - c \<le> 0 then 0
                 else max 0 (min 1 (h / (M - c))) * max (T - c) 0)"
  shows "(if 0 < min T M - c
          then min (max 0
                 (if T \<le> M then V
                  else max 0 (min 1 (if 0 < T - c then V / (T - c) else 0))
                       * (if 0 < M - c then M - c else 0)))
               (min T M - c)
          else 0) = h"
proof (cases "T \<le> M")
  case True
  then have r: "h \<le> max (T - c) 0" using assms(2) by simp
  have V: "V = h" using True r assms(1) by (simp add: V_def)
  show ?thesis using True r assms(1) unfolding V by (auto simp add: min_def max_def)
next
  case False
  then have TM: "M < T" by simp
  show ?thesis
  proof (cases "M - c \<le> 0")
    case True
    then have h0: "h = 0" using assms TM by (simp add: min_def max_def split: if_splits)
    have V: "V = 0" using True False by (simp add: V_def)
    show ?thesis using True TM unfolding V h0 by (simp add: min_def)
  next
    case F2: False
    then have Mc: "0 < M - c" by simp
    then have Tc: "0 < T - c" using TM by simp
    have hr: "h \<le> M - c" using assms(2) TM Mc by (simp add: min_def max_def split: if_splits)
    have p0: "0 \<le> h / (M - c)" using assms(1) Mc by simp
    have p1: "h / (M - c) \<le> 1" using hr Mc by simp
    have p: "max 0 (min 1 (h / (M - c))) = h / (M - c)" using p0 p1 by simp
    have V: "V = h / (M - c) * (T - c)"
      using False F2 Tc by (simp add: V_def p max_absorb1)
    have q: "V / (T - c) = h / (M - c)" unfolding V using Tc by simp
    have undo: "h / (M - c) * (M - c) = h" using Mc by simp
    have mn: "min T M = M" using TM by simp
    show ?thesis
      using False Mc Tc hr assms(1) unfolding q p undo mn by simp
  qed
qed

subsection \<open>updateSizer, handleElementAdded and handleElementRemoved\<close>

lemma updateSizer_fields [simp]:
  "scrollTop (updateSizer st) = scrollTop st"
  "scrollLeft (updateSizer st) = scrollLeft st"
  "clientWidth (updateSizer st) = clientWidth st"
  "clientHeight (updateSizer st) = clientHeight st"
  "animationFrames (updateSizer st) = animationFrames st"
  "updateQueued (updateSizer st) = updateQueued st"
  "elements (updateSizer st) = elements st"
  "virtualScrollTop (updateSizer st) = virtualScrollTop st"
  "virtualScrollLeft (updateSizer st) = virtualScrollLeft st"
  "totalVirtualWidth (updateSizer st) = totalVirtualWidth st"
  "totalVirtualHeight (updateSizer st) = totalVirtualHeight st"
  "nextElementId (updateSizer st) = nextElementId st"
  "objCount (updateSizer st) = objCount st"
  "measureFunction (updateSizer st) = measureFunction st"
  "warnings (updateSizer st) = warnings st"
  "objs (updateSizer st) = objs st"
  "kdTree (updateSizer st) = kdTree st"
  "currentlyVisibleElements (updateSizer st) = currentlyVisibleElements st"
  "document (updateSizer st) = document st"
  "domCalls (updateSizer st) = domCalls st"
  "children (updateSizer st) = children st"
  "sizerElement (updateSizer st) =
     map_option (\<lambda>sz. \<lparr>sizerHeightPx = min (totalVirtualHeight st) MAX_SCROLL_HEIGHT,
                         sizerWidthPx = min (totalVirtualWidth st) MAX_SCROLL_WIDTH\<rparr>)
       (sizerElement st)"
  by (simp_all add: updateSizer_def Let_def min_def split: option.splits)

lemma handleElementAdded_kept [simp]:
  "scrollTop (stateOf (handleElementAdded st el b)) = scrollTop st"
  "scrollLeft (stateOf (handleElementAdded st el b)) = scrollLeft st"
  "clientWidth (stateOf (handleElementAdded st el b)) = clientWidth st"
  "clientHeight (stateOf (handleElementAdded st el b)) = clientHeight st"
  "animationFrames (stateOf (handleElementAdded st el b)) = animationFrames st"
  "updateQueued (stateOf (handleElementAdded st el b)) = updateQueued st"
  "virtualScrollTop (stateOf (handleElementAdded st el b)) = virtualScrollTop st"
  "virtualScrollLeft (stateOf (handleElementAdded st el b)) = virtualScrollLeft st"
  "measureFunction (stateOf (handleElementAdded st el b)) = measureFunction st"
  "currentlyVisibleElements (stateOf (handleElementAdded st el b)) = currentlyVisibleElements st"
  by (simp_all add: handleElementAdded_def originalRemoveChild_def Let_def)

lemma handleElementAdded_returns:
  assumes "\<not> b \<or> ElementNode el \<in> set (children st)"
  shows "returned (handleElementAdded st el b)"
  using assms by (auto simp add: handleElementAdded_def originalRemoveChild_def Let_def)

lemma handleElementAdded_new:
  assumes "\<not> duplicateId st el" and "\<not> b \<or> ElementNode el \<in> set (children st)"
  shows
  "totalVirtualHeight (stateOf (handleElementAdded st el b)) =
     totalVirtualHeight st + snd (measureFunction st el)"
  "totalVirtualWidth (stateOf (handleElementAdded st el b)) =
     max (totalVirtualWidth st) (fst (measureFunction st el))"
  "nextElementId (stateOf (handleElementAdded st el b)) =
     nextElementId st + (if nodeId (document st el) = [] then 1 else 0)"
  "objCount (stateOf (handleElementAdded st el b)) = objCount st + 1"
  "warnings (stateOf (handleElementAdded st el b)) = warnings st"
  "domCalls (stateOf (handleElementAdded st el b)) =
     domCalls st @ (if \<not> b then [OriginalAppendChild (ElementNode el)] else [])
       @ [OriginalRemoveChild (ElementNode el)]"
  "children (stateOf (handleElementAdded st el b)) = removeAll (ElementNode el) (children st)"
  "elements (stateOf (handleElementAdded st el b)) =
     AList.update
       (if nodeId (document st el) = [] then generateId (nextElementId st)
        else nodeId (document st el))
       (objCount st) (elements st)"
  "objs (stateOf (handleElementAdded st el b)) =
     (objs st)(objCount st :=
        \<lparr>elemId = (if nodeId (document st el) = [] then generateId (nextElementId st)
                    else nodeId (document st el)),
         domElement = el,
         rect = \<lparr>x = 0, y = totalVirtualHeight st,
                 width = fst (measureFunction st el), height = snd (measureFunction st el)\<rparr>,
         isVisible = False,
         originalDisplay = styleDisplay (document st el)\<rparr>)"
  "kdTree (stateOf (handleElementAdded st el b)) =
     insert_kd (objs (stateOf (handleElementAdded st el b))) (kdTree st) (objCount st)"
  "document (stateOf (handleElementAdded st el b)) =
     (document st)(el := (document st el)
        \<lparr>nodeId := (if nodeId (document st el) = [] then generateId (nextElementId st)
                     else nodeId (document st el))\<rparr>)"
  "sizerElement (stateOf (handleElementAdded st el b)) =
     map_option
       (\<lambda>sz. \<lparr>sizerHeightPx =
                  min (totalVirtualHeight st + snd (measureFunction st el)) MAX_SCROLL_HEIGHT,
                sizerWidthPx =
                  min (max (totalVirtualWidth st) (fst (measureFunction st el)))
                    MAX_SCROLL_WIDTH\<rparr>)
       (sizerElement st)"
  using assms unfolding duplicateId_def
  by (auto simp add: handleElementAdded_def originalRemoveChild_def Let_def split: option.splits)

lemma handleElementAdded_duplicate:
  assumes "duplicateId st el"
  shows "handleElementAdded st el b =
           Returned (st\<lparr>warnings := warnings st @
                 [''Virtualboy: Element with ID '' @ [CHR 39] @ nodeId (document st el) @ [CHR 39]
                  @ '' already added. Skipping.'']\<rparr>)"
  using assms by (simp add: handleElementAdded_def duplicateId_def Let_def)

lemma generateId_nonempty: "generateId n \<noteq> []" "[] \<noteq> generateId n"
  by (simp_all add: generateId_def)

lemma handleElementAdded_keys:
  assumes "map_of (elements st) [] = None"
  shows "map_of (elements (stateOf (handleElementAdded st el b))) [] = None"
  using assms
  by (simp add: handleElementAdded_def originalRemoveChild_def Let_def update_conv'
        generateId_nonempty)

lemma discoverInitialElements_inv:
  assumes "map_of (elements st) [] = None"
  shows "map_of (elements (stateOf (discoverInitialElements st initialChildren))) [] = None"
    and "animationFrames (stateOf (discoverInitialElements st initialChildren))
           = animationFrames st"
    and "updateQueued (stateOf (discoverInitialElements st initialChildren)) = updateQueued st"
proof -
  show "map_of (elements (stateOf (discoverInitialElements st initialChildren))) [] = None"
    unfolding discoverInitialElements_def
    by (rule foldOutcome_invariant[where P = "\<lambda>s. map_of (elements s) [] = None"])
       (simp_all add: handleElementAdded_keys assms)
  show "animationFrames (stateOf (discoverInitialElements st initialChildren))
          = animationFrames st"
    unfolding discoverInitialElements_def
    by (rule foldOutcome_preserved[where g = animationFrames]) simp
  show "updateQueued (stateOf (discoverInitialElements st initialChildren)) = updateQueued st"
    unfolding discoverInitialElements_def
    by (rule foldOutcome_preserved[where g = updateQueued]) simp
qed

lemma handleElementRemoved_fields [simp]:
  "animationFrames (stateOf (handleElementRemoved st el)) = animationFrames st"
  "updateQueued (stateOf (handleElementRemoved st el)) = updateQueued st"
  by (simp_all add: handleElementRemoved_def originalRemoveChild_def Let_def
        split: option.splits)

lemma handleElementRemoved_elements:
  "elements (stateOf (handleElementRemoved st el)) = elements st \<or>
   elements (stateOf (handleElementRemoved st el))
     = AList.delete (nodeId (document st el)) (elements st)"
  by (simp add: handleElementRemoved_def originalRemoveChild_def Let_def split: option.splits)

lemma handleElementRemoved_keys:
  assumes "map_of (elements st) [] = None"
  shows "map_of (elements (stateOf (handleElementRemoved st el))) [] = None"
  using assms handleElementRemoved_elements[of st el] by (auto simp add: delete_conv')

subsection \<open>remeasure, destroy and animation frames\<close>

lemma restackLoop_engine: "engineFields (fst (restackLoop st)) = engineFields st"
  by (simp add: restackLoop_def foldl_restackStep_engine)

lemmas restackLoop_fields [simp] = engineFields_fields[OF restackLoop_engine]

lemma restack_unfold:
  "restack st =
     updateSizer ((fst (restackLoop st))
        \<lparr>totalVirtualHeight := fst (snd (restackLoop st)),
         totalVirtualWidth := snd (snd (restackLoop st))\<rparr>)"
  by (simp add: restack_def Let_def split_def)

lemma restack_fields [simp]:
  "scrollTop (restack st) = scrollTop st"
  "scrollLeft (restack st) = scrollLeft st"
  "clientWidth (restack st) = clientWidth st"
  "clientHeight (restack st) = clientHeight st"
  "animationFrames (restack st) = animationFrames st"
  "updateQueued (restack st) = updateQueued st"
  "elements (restack st) = elements st"
  "virtualScrollTop (restack st) = virtualScrollTop st"
  "virtualScrollLeft (restack st) = virtualScrollLeft st"
  "measureFunction (restack st) = measureFunction st"
  "sizerElement (restack st) =
     map_option
       (\<lambda>sz. \<lparr>sizerHeightPx = min (totalVirtualHeight (restack st)) MAX_SCROLL_HEIGHT,
              sizerWidthPx = min (totalVirtualWidth (restack st)) MAX_SCROLL_WIDTH\<rparr>)
       (sizerElement st)"
  by (simp_all add: restack_unfold)

lemma restack_totals:
  "totalVirtualHeight (restack st) = fst (snd (restackLoop st))"
  "totalVirtualWidth (restack st) = snd (snd (restackLoop st))"
  by (simp_all add: restack_unfold)

lemma restoreScroll_fields [simp]:
  "scrollTop (restoreScroll t l st) = verticalScrollRestoration t st"
  "scrollLeft (restoreScroll t l st) = horizontalScrollRestoration l st"
  "clientWidth (restoreScroll t l st) = clientWidth st"
  "clientHeight (restoreScroll t l st) = clientHeight st"
  "animationFrames (restoreScroll t l st) = animationFrames st"
  "updateQueued (restoreScroll t l st) = updateQueued st"
  "elements (restoreScroll t l st) = elements st"
  "totalVirtualHeight (restoreScroll t l st) = totalVirtualHeight st"
  "totalVirtualWidth (restoreScroll t l st) = totalVirtualWidth st"
  "sizerElement (restoreScroll t l st) = sizerElement st"
  by (simp_all add: restoreScroll_def)

lemma recalcVirtualScroll_fields [simp]:
  "scrollTop (recalcVirtualScroll st) = scrollTop st"
  "scrollLeft (recalcVirtualScroll st) = scrollLeft st"
  "clientWidth (recalcVirtualScroll st) = clientWidth st"
  "clientHeight (recalcVirtualScroll st) = clientHeight st"
  "animationFrames (recalcVirtualScroll st) = animationFrames st"
  "updateQueued (recalcVirtualScroll st) = updateQueued st"
  "elements (recalcVirtualScroll st) = elements st"
  "totalVirtualHeight (recalcVirtualScroll st) = totalVirtualHeight st"
  "totalVirtualWidth (recalcVirtualScroll st) = totalVirtualWidth st"
  "sizerElement (recalcVirtualScroll st) = sizerElement st"
  "virtualScrollTop (recalcVirtualScroll st) = verticalScrollRecalculation st"
  "virtualScrollLeft (recalcVirtualScroll st) = horizontalScrollRecalculation st"
  by (simp_all add: recalcVirtualScroll_def)

lemma restackStep_visible:
  "currentlyVisibleElements (fst (restackStep acc a)) = currentlyVisibleElements (fst acc)"
  by (simp add: restackStep_def Let_def split_def)

lemma foldl_restackStep_visible:
  "currentlyVisibleElements (fst (foldl restackStep acc vs)) = currentlyVisibleElements (fst acc)"
  by (induction vs arbitrary: acc) (simp_all add: restackStep_visible)

lemma restack_visible: "currentlyVisibleElements (restack st) = []"
  by (simp add: restack_unfold restackLoop_def foldl_restackStep_visible)

text \<open>
  \<open>remeasure\<close> throws only in its detaching loop, before it has written anything but
  visibility flags; when the loop returns, so does \<open>remeasure\<close>.
\<close>

lemma remeasure_returns:
  assumes "returned (foldOutcome hideStep st (currentlyVisibleElements st))"
  shows "returned (remeasure st)"
proof -
  from assms obtain hidden where
    h: "foldOutcome hideStep st (currentlyVisibleElements st) = Returned hidden"
    by (cases "foldOutcome hideStep st (currentlyVisibleElements st)") simp_all
  have "currentlyVisibleElements
          (recalcVirtualScroll
             (restoreScroll (virtualScrollTop st) (virtualScrollLeft st) (restack hidden))) = []"
    by (simp add: recalcVirtualScroll_def restoreScroll_def restack_visible)
  from updateVisibleElements_nothing_visible[OF this]
  show ?thesis by (simp add: remeasure_def relayout_def h)
qed

lemma remeasure_cases:
  obtains (returns) hidden where
      "foldOutcome hideStep st (currentlyVisibleElements st) = Returned hidden"
      "stateOf (remeasure st) =
         stateOf (updateVisibleElements
                    (recalcVirtualScroll
                       (restoreScroll (virtualScrollTop st) (virtualScrollLeft st)
                          (restack hidden))))"
    | (throws) e thrown where
      "foldOutcome hideStep st (currentlyVisibleElements st) = Threw e thrown"
      "remeasure st = Threw e thrown"
proof (cases "foldOutcome hideStep st (currentlyVisibleElements st)")
  case (Returned hidden)
  then show ?thesis using returns[of hidden] by (simp add: remeasure_def relayout_def)
next
  case (Threw e thrown)
  then show ?thesis using throws[of e thrown] by (simp add: remeasure_def relayout_def)
qed

lemma remeasure_fields [simp]:
  "clientWidth (stateOf (remeasure st)) = clientWidth st"
  "clientHeight (stateOf (remeasure st)) = clientHeight st"
  "animationFrames (stateOf (remeasure st)) = animationFrames st"
  "updateQueued (stateOf (remeasure st)) = updateQueued st"
  "elements (stateOf (remeasure st)) = elements st"
proof -
  have "clientWidth (stateOf (remeasure st)) = clientWidth st
      \<and> clientHeight (stateOf (remeasure st)) = clientHeight st
      \<and> animationFrames (stateOf (remeasure st)) = animationFrames st
      \<and> updateQueued (stateOf (remeasure st)) = updateQueued st
      \<and> elements (stateOf (remeasure st)) = elements st"
  proof (cases st rule: remeasure_cases)
    case (returns hidden)
    have h: "hidden = stateOf (foldOutcome hideStep st (currentlyVisibleElements st))"
      using returns(1) by simp
    show ?thesis unfolding returns(2) by (simp add: h)
  next
    case (throws e thrown)
    have h: "thrown = stateOf (foldOutcome hideStep st (currentlyVisibleElements st))"
      using throws(1) by simp
    show ?thesis unfolding throws(2) by (simp add: h)
  qed
  then show "clientWidth (stateOf (remeasure st)) = clientWidth st"
    "clientHeight (stateOf (remeasure st)) = clientHeight st"
    "animationFrames (stateOf (remeasure st)) = animationFrames st"
    "updateQueued (stateOf (remeasure st)) = updateQueued st"
    "elements (stateOf (remeasure st)) = elements st"
    by simp_all
qed

lemma verticalScrollRestoration_forward:
  assumes "sizerElement st \<noteq> None"
      and "engineFields hidden = engineFields st"
      and "totalVirtualHeight (restack hidden) = totalVirtualHeight st"
      and "virtualScrollTop st = verticalScrollCalculation st"
      and "0 \<le> scrollTop st"
      and "scrollTop st \<le> max (min (totalVirtualHeight st) MAX_SCROLL_HEIGHT - clientHeight st) 0"
  shows "verticalScrollRestoration (virtualScrollTop st) (restack hidden) = scrollTop st"
proof -
  obtain sz where sz: "sizerElement hidden = Some sz"
    using assms(1) engineFields_fields(12)[OF assms(2)] by auto
  have c: "clientHeight hidden = clientHeight st"
    by (rule engineFields_fields(4)[OF assms(2)])
  have V: "virtualScrollTop st =
             (if totalVirtualHeight st \<le> MAX_SCROLL_HEIGHT
              then min (max 0 (scrollTop st)) (max (totalVirtualHeight st - clientHeight st) 0)
              else if MAX_SCROLL_HEIGHT - clientHeight st \<le> 0 then 0
              else max 0 (min 1 (scrollTop st / (MAX_SCROLL_HEIGHT - clientHeight st)))
                     * max (totalVirtualHeight st - clientHeight st) 0)"
    unfolding assms(4) by (rule verticalScrollCalculation_eq)
  show ?thesis
    unfolding verticalScrollRestoration_def Let_def
    by (simp only: restack_fields assms(3) sz c option.map option.case Sizer.simps V
          restore_forward_offset[OF assms(5) assms(6)])
qed

lemma horizontalScrollRestoration_forward:
  assumes "sizerElement st \<noteq> None"
      and "engineFields hidden = engineFields st"
      and "totalVirtualWidth (restack hidden) = totalVirtualWidth st"
      and "virtualScrollLeft st = horizontalScrollCalculation st"
      and "0 \<le> scrollLeft st"
      and "scrollLeft st \<le> max (min (totalVirtualWidth st) MAX_SCROLL_WIDTH - clientWidth st) 0"
  shows "horizontalScrollRestoration (virtualScrollLeft st) (restack hidden) = scrollLeft st"
proof -
  obtain sz where sz: "sizerElement hidden = Some sz"
    using assms(1) engineFields_fields(12)[OF assms(2)] by auto
  have c: "clientWidth hidden = clientWidth st"
    by (rule engineFields_fields(3)[OF assms(2)])
  have V: "virtualScrollLeft st =
             (if totalVirtualWidth st \<le> MAX_SCROLL_WIDTH
              then min (max 0 (scrollLeft st)) (max (totalVirtualWidth st - clientWidth st) 0)
              else if MAX_SCROLL_WIDTH - clientWidth st \<le> 0 then 0
              else max 0 (min 1 (scrollLeft st / (MAX_SCROLL_WIDTH - clientWidth st)))
                     * max (totalVirtualWidth st - clientWidth st) 0)"
    unfolding assms(4) by (rule horizontalScrollCalculation_eq)
  show ?thesis
    unfolding horizontalScrollRestoration_def Let_def
    by (simp only: restack_fields assms(3) sz c option.map option.case Sizer.simps V
          restore_forward_offset[OF assms(5) assms(6)])
qed

lemma destroy_fields [simp]:
  "animationFrames (stateOf (destroy st)) = animationFrames st"
  "updateQueued (stateOf (destroy st)) = updateQueued st"
  "map_of (elements (stateOf (destroy st))) [] = map_of (elements st) []
   \<or> map_of (elements (stateOf (destroy st))) [] = None"
proof -
  have "animationFrames (stateOf (destroy st)) = animationFrames st
      \<and> updateQueued (stateOf (destroy st)) = updateQueued st
      \<and> (elements (stateOf (destroy st)) = elements st \<or> elements (stateOf (destroy st)) = [])"
  proof (cases "foldOutcome hideStep st (currentlyVisibleElements st)")
    case (Returned hidden)
    have h: "hidden = stateOf (foldOutcome hideStep st (currentlyVisibleElements st))"
      using Returned by simp
    have "animationFrames hidden = animationFrames st" "updateQueued hidden = updateQueued st"
      unfolding h by simp_all
    then show ?thesis using Returned by (simp add: destroy_def Let_def)
  next
    case (Threw e thrown)
    have h: "thrown = stateOf (foldOutcome hideStep st (currentlyVisibleElements st))"
      using Threw by simp
    have "animationFrames thrown = animationFrames st" "updateQueued thrown = updateQueued st"
         "elements thrown = elements st"
      unfolding h by simp_all
    then show ?thesis using Threw by (simp add: destroy_def)
  qed
  then show "animationFrames (stateOf (destroy st)) = animationFrames st"
    "updateQueued (stateOf (destroy st)) = updateQueued st"
    "map_of (elements (stateOf (destroy st))) [] = map_of (elements st) []
     \<or> map_of (elements (stateOf (destroy st))) [] = None"
    by auto
qed

text \<open>
  The callback clears the flag exactly when the refresh returns.
\<close>

lemma frameCallback_fields [simp]:
  "animationFrames (stateOf (frameCallback st)) = animationFrames st"
  "elements (stateOf (frameCallback st)) = elements st"
  "updateQueued (stateOf (frameCallback st))
     = (\<not> returned (updateVisibleElements st) \<and> updateQueued st)"
  "returned (frameCallback st) = returned (updateVisibleElements st)"
proof -
  have "animationFrames (stateOf (frameCallback st)) = animationFrames st
      \<and> elements (stateOf (frameCallback st)) = elements st
      \<and> updateQueued (stateOf (frameCallback st))
          = (\<not> returned (updateVisibleElements st) \<and> updateQueued st)
      \<and> returned (frameCallback st) = returned (updateVisibleElements st)"
  proof (cases "updateVisibleElements st")
    case (Returned st1)
    have "st1 = stateOf (updateVisibleElements st)" using Returned by simp
    then have "animationFrames st1 = animationFrames st" "elements st1 = elements st"
      by simp_all
    then show ?thesis using Returned by (simp add: frameCallback_def)
  next
    case (Threw e thrown)
    have "thrown = stateOf (updateVisibleElements st)" using Threw by simp
    then have "animationFrames thrown = animationFrames st" "elements thrown = elements st"
              "updateQueued thrown = updateQueued st"
      by simp_all
    then show ?thesis using Threw by (simp add: frameCallback_def)
  qed
  then show "animationFrames (stateOf (frameCallback st)) = animationFrames st"
    "elements (stateOf (frameCallback st)) = elements st"
    "updateQueued (stateOf (frameCallback st))
       = (\<not> returned (updateVisibleElements st) \<and> updateQueued st)"
    "returned (frameCallback st) = returned (updateVisibleElements st)"
    by simp_all
qed

lemma frameCallbacks_fields [simp]:
  "animationFrames (((\<lambda>s. stateOf (frameCallback s)) ^^ n) st) = animationFrames st"
  "elements (((\<lambda>s. stateOf (frameCallback s)) ^^ n) st) = elements st"
  by (induction n) simp_all

lemma animationFrame_fields [simp]:
  "animationFrames (animationFrame st) = 0"
  "elements (animationFrame st) = elements st"
  by (simp_all add: animationFrame_def)

lemma animationFrame_one:
  assumes "animationFrames st = 1"
  shows "animationFrame st = stateOf (frameCallback (st\<lparr>animationFrames := 0\<rparr>))"
  using assms by (simp add: animationFrame_def)

lemma animationFrame_none:
  assumes "animationFrames st = 0"
  shows "animationFrame st = st"
  using assms by (simp add: animationFrame_def)

subsection \<open>Every state of a run\<close>

lemma reachable_runInvariant:
  assumes "reachable st"
  shows "runInvariant st"
  using assms
proof (induction rule: reachable.induct)
  case (created sTop sLeft cWidth cHeight doc initialChildren measureFn st)
  let ?init = "initialState sTop sLeft cWidth cHeight doc initialChildren measureFn"
  from created obtain st1 st2 where
    d: "discoverInitialElements ?init initialChildren = Returned st1" and
    u: "updateVisibleElements st1 = Returned st2" and
    s: "st = updateSizer st2"
    by (auto simp add: constructor_def split: Outcome.splits)
  have st1: "st1 = stateOf (discoverInitialElements ?init initialChildren)" using d by simp
  have st2: "st2 = stateOf (updateVisibleElements st1)" using u by simp
  have "map_of (elements ?init) [] = None" by (simp add: initialState_def)
  from discoverInitialElements_inv[OF this, of initialChildren]
  have "map_of (elements st1) [] = None" "animationFrames st1 = 0"
    unfolding st1 by (simp_all add: initialState_def)
  then show ?case unfolding s st2 by (simp add: runInvariant_def)
next
  case (added st el)
  then show ?case by (simp add: runInvariant_def handleElementAdded_keys)
next
  case (removed st el)
  then show ?case by (simp add: runInvariant_def handleElementRemoved_keys)
next
  case (scrolled st offsets)
  then show ?case by (auto simp add: runInvariant_def scrollEvent_def)
next
  case (frame st)
  then show ?case by (simp add: runInvariant_def)
next
  case (remeasured st)
  then show ?case by (simp add: runInvariant_def)
next
  case (destroyed st)
  then show ?case using destroy_fields(3)[of st] by (auto simp add: runInvariant_def)
next
  case (hostChanged st doc cWidth cHeight measureFn)
  then show ?case by (simp add: runInvariant_def)
qed

lemma reachable_scrollEvents:
  assumes "reachable st"
  shows "reachable (foldl scrollEvent st events)"
  using assms by (induction events arbitrary: st) (simp_all add: reachable.scrolled)

lemma scrollEvents_queued:
  assumes "events \<noteq> []"
  shows "updateQueued (foldl scrollEvent st events)"
  using assms by (induction events arbitrary: st rule: rev_induct) (simp_all add: scrollEvent_def)

subsection \<open>The example containers\<close>

lemma natToString_digit: "n < 10 \<Longrightarrow> natToString n = [''0123456789'' ! n]"
  by simp

lemma generateId_0: "generateId 0 = ''virtual-element-0''"
  by (simp add: generateId_def)

lemma generateId_1: "generateId (Suc 0) = ''virtual-element-1''"
  by (simp add: generateId_def)

lemma exampleTracked_fields:
  "scrollTop exampleTracked = 0"
  "scrollLeft exampleTracked = 0"
  "clientWidth exampleTracked = 800"
  "clientHeight exampleTracked = 600"
  "animationFrames exampleTracked = 0"
  "updateQueued exampleTracked = False"
  "virtualScrollTop exampleTracked = 0"
  "virtualScrollLeft exampleTracked = 0"
  "measureFunction exampleTracked = (\<lambda>n. (100, 1000))"
  "totalVirtualHeight exampleTracked = 1000"
  "totalVirtualWidth exampleTracked = 800"
  "nextElementId exampleTracked = 0"
  "objCount exampleTracked = 1"
  "warnings exampleTracked = []"
  "elements exampleTracked = [(''virtual-element-0'', 0)]"
  "objs exampleTracked =
     (\<lambda>ref. noElement)(0 :=
        \<lparr>elemId = ''virtual-element-0'', domElement = 0,
         rect = \<lparr>x = 0, y = 0, width = 100, height = 1000\<rparr>,
         isVisible = False, originalDisplay = []\<rparr>)"
  "document exampleTracked = exampleDocument"
  "children exampleTracked = [SizerNode]"
  "sizerElement exampleTracked = Some \<lparr>sizerHeightPx = 1000, sizerWidthPx = 800\<rparr>"
  unfolding exampleTracked_def
  by (simp_all add: initialState_def handleElementAdded_new duplicateId_def exampleDocument_def
        blankNode_def MAX_SCROLL_HEIGHT_def MAX_SCROLL_WIDTH_def)

lemma exampleTracked_tree: "kdTree exampleTracked = KDNode 0 0 Null Null"
  unfolding exampleTracked_def
  by (simp add: initialState_def handleElementAdded_new duplicateId_def exampleDocument_def
        blankNode_def insert_kd_def)

lemma exampleTracked_visible: "currentlyVisibleElements exampleTracked = []"
  unfolding exampleTracked_def by (simp add: initialState_def)

lemma exampleTracked_intersects:
  "intersects (rect (objs exampleTracked 0)) (viewportRect exampleTracked)"
  by (simp add: exampleTracked_fields viewportRect_def intersects_def)

lemma exampleConstructor:
  "constructor 0 0 800 600 exampleDocument [0] (\<lambda>n. (100, 1000))
     = Returned (updateSizer (attachAdditions exampleTracked [0]))"
proof -
  let ?init = "initialState 0 0 800 600 exampleDocument [0] (\<lambda>n. (100, 1000))"
  have r: "returned (handleElementAdded ?init 0 True)"
    by (rule handleElementAdded_returns) (simp add: initialState_def)
  have d: "discoverInitialElements ?init [0] = Returned exampleTracked"
    unfolding discoverInitialElements_def foldOutcome_single exampleTracked_def
    by (rule returned_stateOf[OF r])
  have u: "updateVisibleElements exampleTracked = Returned (attachAdditions exampleTracked [0])"
    by (rule updateVisibleElements_single[OF exampleTracked_tree exampleTracked_visible
               exampleTracked_intersects])
  show ?thesis by (simp add: constructor_def d u)
qed

lemma exampleManager_unfold: "exampleManager = updateSizer (attachAdditions exampleTracked [0])"
  by (simp add: exampleManager_def exampleConstructor)

lemma reachable_exampleManager: "reachable exampleManager"
  unfolding exampleManager_unfold by (rule reachable.created[OF exampleConstructor])

lemma exampleManager_fields:
  "scrollTop exampleManager = 0"
  "scrollLeft exampleManager = 0"
  "clientWidth exampleManager = 800"
  "clientHeight exampleManager = 600"
  "animationFrames exampleManager = 0"
  "updateQueued exampleManager = False"
  "virtualScrollTop exampleManager = 0"
  "virtualScrollLeft exampleManager = 0"
  "measureFunction exampleManager = (\<lambda>n. (100, 1000))"
  "totalVirtualHeight exampleManager = 1000"
  "totalVirtualWidth exampleManager = 800"
  "nextElementId exampleManager = 0"
  "objCount exampleManager = 1"
  "elements exampleManager = [(''virtual-element-0'', 0)]"
  "sizerElement exampleManager = Some \<lparr>sizerHeightPx = 1000, sizerWidthPx = 800\<rparr>"
  unfolding exampleManager_unfold
  by (simp_all add: exampleTracked_fields MAX_SCROLL_HEIGHT_def MAX_SCROLL_WIDTH_def)

lemma exampleManager_visible:
  "currentlyVisibleElements exampleManager = [''virtual-element-0'']"
  "objs exampleManager =
     (\<lambda>ref. noElement)(0 :=
        \<lparr>elemId = ''virtual-element-0'', domElement = 0,
         rect = \<lparr>x = 0, y = 0, width = 100, height = 1000\<rparr>,
         isVisible = True, originalDisplay = []\<rparr>)"
  "kdTree exampleManager = KDNode 0 0 Null Null"
  "children exampleManager = [SizerNode, ElementNode 0]"
  "nodeId (document exampleManager 0) = ''virtual-element-0''"
  "n \<noteq> 0 \<Longrightarrow> document exampleManager n = blankNode"
  unfolding exampleManager_unfold
  by (simp_all add: attachAdditions_entering exampleTracked_visible exampleTracked_tree
        exampleTracked_fields exampleDocument_def blankNode_def)

lemma exampleScrolled_fields:
  "sizerElement (scrollEvent exampleManager (t, l)) = Some \<lparr>sizerHeightPx = 1000, sizerWidthPx = 800\<rparr>"
  "totalVirtualHeight (scrollEvent exampleManager (t, l)) = 1000"
  "totalVirtualWidth (scrollEvent exampleManager (t, l)) = 800"
  "clientHeight (scrollEvent exampleManager (t, l)) = 600"
  "clientWidth (scrollEvent exampleManager (t, l)) = 800"
  "scrollTop (scrollEvent exampleManager (t, l)) = t"
  "scrollLeft (scrollEvent exampleManager (t, l)) = l"
  "virtualScrollTop (scrollEvent exampleManager (t, l))
     = verticalScrollCalculation (scrollEvent exampleManager (t, l))"
  "virtualScrollLeft (scrollEvent exampleManager (t, l))
     = horizontalScrollCalculation (scrollEvent exampleManager (t, l))"
  "verticalScrollCalculation (scrollEvent exampleManager (t, l)) = min (max 0 t) 400"
  "horizontalScrollCalculation (scrollEvent exampleManager (t, l)) = min (max 0 l) 0"
  "elements (scrollEvent exampleManager (t, l)) = [(''virtual-element-0'', 0)]"
  "measureFunction (scrollEvent exampleManager (t, l)) = (\<lambda>n. (100, 1000))"
  by (simp_all add: scrollEvent_def exampleManager_fields verticalScrollCalculation_eq
        horizontalScrollCalculation_eq MAX_SCROLL_HEIGHT_def MAX_SCROLL_WIDTH_def)

lemma exampleScrolled_hidden:
  "returned (foldOutcome hideStep (scrollEvent exampleManager (t, l))
               (currentlyVisibleElements (scrollEvent exampleManager (t, l))))"
  by (simp add: scrollEvent_def exampleManager_fields exampleManager_visible foldOutcome_single
        hideStep_def originalRemoveChild_def)

lemma exampleScrolled_restacked:
  assumes "engineFields hidden = engineFields (scrollEvent exampleManager (t, l))"
  shows "totalVirtualHeight (restack hidden) = 1000"
    and "totalVirtualWidth (restack hidden) = 800"
    and "sizerElement (restack hidden) = Some \<lparr>sizerHeightPx = 1000, sizerWidthPx = 800\<rparr>"
    and "clientHeight (restack hidden) = 600"
    and "clientWidth (restack hidden) = 800"
proof -
  note h = engineFields_fields[OF assms]
  show t: "totalVirtualHeight (restack hidden) = 1000" "totalVirtualWidth (restack hidden) = 800"
    by (simp_all add: restack_totals restackLoop_def restackStep_def Let_def h
          exampleScrolled_fields)
  show "sizerElement (restack hidden) = Some \<lparr>sizerHeightPx = 1000, sizerWidthPx = 800\<rparr>"
    by (simp add: t h exampleScrolled_fields MAX_SCROLL_HEIGHT_def MAX_SCROLL_WIDTH_def)
  show "clientHeight (restack hidden) = 600" "clientWidth (restack hidden) = 800"
    by (simp_all add: h exampleScrolled_fields)
qed

lemma exampleScrolled_remeasured:
  "totalVirtualHeight (stateOf (remeasure (scrollEvent exampleManager (t, l)))) = 1000"
  "totalVirtualWidth (stateOf (remeasure (scrollEvent exampleManager (t, l)))) = 800"
  "scrollTop (stateOf (remeasure (scrollEvent exampleManager (t, l))))
     = verticalScrollRestoration (min (max 0 t) 400)
         (restack (stateOf (foldOutcome hideStep (scrollEvent exampleManager (t, l))
                     (currentlyVisibleElements (scrollEvent exampleManager (t, l))))))"
  "scrollLeft (stateOf (remeasure (scrollEvent exampleManager (t, l))))
     = horizontalScrollRestoration (min (max 0 l) 0)
         (restack (stateOf (foldOutcome hideStep (scrollEvent exampleManager (t, l))
                     (currentlyVisibleElements (scrollEvent exampleManager (t, l))))))"
proof -
  let ?S = "scrollEvent exampleManager (t, l)"
  have "totalVirtualHeight (stateOf (remeasure ?S)) = 1000
      \<and> totalVirtualWidth (stateOf (remeasure ?S)) = 800
      \<and> scrollTop (stateOf (remeasure ?S))
          = verticalScrollRestoration (min (max 0 t) 400)
              (restack (stateOf (foldOutcome hideStep ?S (currentlyVisibleElements ?S))))
      \<and> scrollLeft (stateOf (remeasure ?S))
          = horizontalScrollRestoration (min (max 0 l) 0)
              (restack (stateOf (foldOutcome hideStep ?S (currentlyVisibleElements ?S))))"
  proof (cases ?S rule: remeasure_cases)
    case (returns hidden)
    have e: "engineFields hidden = engineFields ?S"
      using hideLoop_engine[of ?S "currentlyVisibleElements ?S"] returns(1) by simp
    show ?thesis
      unfolding returns(2)
      by (simp add: returns(1) exampleScrolled_restacked[OF e] exampleScrolled_fields)
  next
    case (throws e thrown)
    with exampleScrolled_hidden[of t l] show ?thesis by simp
  qed
  then show "totalVirtualHeight (stateOf (remeasure ?S)) = 1000"
    "totalVirtualWidth (stateOf (remeasure ?S)) = 800"
    "scrollTop (stateOf (remeasure ?S))
       = verticalScrollRestoration (min (max 0 t) 400)
           (restack (stateOf (foldOutcome hideStep ?S (currentlyVisibleElements ?S))))"
    "scrollLeft (stateOf (remeasure ?S))
       = horizontalScrollRestoration (min (max 0 l) 0)
           (restack (stateOf (foldOutcome hideStep ?S (currentlyVisibleElements ?S))))"
    by simp_all
qed





subsection \<open>The run with a generated id that collides\<close>

lemma collidedManager_fields:
  "scrollTop collidedManager = 0"
  "scrollLeft collidedManager = 0"
  "clientWidth collidedManager = 800"
  "clientHeight collidedManager = 600"
  "animationFrames collidedManager = 0"
  "updateQueued collidedManager = False"
  "virtualScrollTop collidedManager = 0"
  "virtualScrollLeft collidedManager = 0"
  "measureFunction collidedManager = (\<lambda>n. (100, 1000))"
  "currentlyVisibleElements collidedManager = [''virtual-element-0'']"
  "totalVirtualHeight collidedManager = 2000"
  "totalVirtualWidth collidedManager = 800"
  "nextElementId collidedManager = 1"
  "objCount collidedManager = 2"
  "elements collidedManager = [(''virtual-element-0'', 1)]"
  "objs collidedManager =
     (\<lambda>ref. noElement)
       (0 := \<lparr>elemId = ''virtual-element-0'', domElement = 0,
              rect = \<lparr>x = 0, y = 0, width = 100, height = 1000\<rparr>,
              isVisible = True, originalDisplay = []\<rparr>,
        1 := \<lparr>elemId = ''virtual-element-0'', domElement = 1,
              rect = \<lparr>x = 0, y = 1000, width = 100, height = 1000\<rparr>,
              isVisible = False, originalDisplay = []\<rparr>)"
  "children collidedManager = [SizerNode, ElementNode 0]"
  "document collidedManager 2 = blankNode"
proof -
  have nd: "\<not> duplicateId exampleManager (Suc 0)"
    by (simp add: duplicateId_def exampleManager_visible blankNode_def)
  have ch: "\<not> False \<or> ElementNode (Suc 0) \<in> set (children exampleManager)" by simp
  note added = handleElementAdded_new[OF nd ch]
  show "scrollTop collidedManager = 0"
    "scrollLeft collidedManager = 0"
    "clientWidth collidedManager = 800"
    "clientHeight collidedManager = 600"
    "animationFrames collidedManager = 0"
    "updateQueued collidedManager = False"
    "virtualScrollTop collidedManager = 0"
    "virtualScrollLeft collidedManager = 0"
    "measureFunction collidedManager = (\<lambda>n. (100, 1000))"
    "currentlyVisibleElements collidedManager = [''virtual-element-0'']"
    "totalVirtualHeight collidedManager = 2000"
    "totalVirtualWidth collidedManager = 800"
    "nextElementId collidedManager = 1"
    "objCount collidedManager = 2"
    "elements collidedManager = [(''virtual-element-0'', 1)]"
    "objs collidedManager =
       (\<lambda>ref. noElement)
         (0 := \<lparr>elemId = ''virtual-element-0'', domElement = 0,
                rect = \<lparr>x = 0, y = 0, width = 100, height = 1000\<rparr>,
                isVisible = True, originalDisplay = []\<rparr>,
          1 := \<lparr>elemId = ''virtual-element-0'', domElement = 1,
                rect = \<lparr>x = 0, y = 1000, width = 100, height = 1000\<rparr>,
                isVisible = False, originalDisplay = []\<rparr>)"
    "children collidedManager = [SizerNode, ElementNode 0]"
    "document collidedManager 2 = blankNode"
    unfolding collidedManager_def
    by (simp_all add: added exampleManager_fields exampleManager_visible generateId_0
          blankNode_def)
qed

lemma collidedManager_tree:
  "kdTree collidedManager = KDNode 0 0 Null (KDNode 1 1 Null Null)"
proof -
  have nd: "\<not> duplicateId exampleManager (Suc 0)"
    by (simp add: duplicateId_def exampleManager_visible blankNode_def)
  have ch: "\<not> False \<or> ElementNode (Suc 0) \<in> set (children exampleManager)" by simp
  have "kdTree collidedManager = insert_kd (objs collidedManager) (KDNode 0 0 Null Null) 1"
    unfolding collidedManager_def
    by (simp add: handleElementAdded_new(10)[OF nd ch] exampleManager_fields
          exampleManager_visible)
  then show ?thesis by (simp add: collidedManager_fields insert_kd_def coordOn_def)
qed

lemma crowdedManager_fields:
  "scrollTop crowdedManager = 0"
  "scrollLeft crowdedManager = 0"
  "clientWidth crowdedManager = 800"
  "clientHeight crowdedManager = 600"
  "animationFrames crowdedManager = 0"
  "updateQueued crowdedManager = False"
  "virtualScrollTop crowdedManager = 0"
  "virtualScrollLeft crowdedManager = 0"
  "currentlyVisibleElements crowdedManager = [''virtual-element-0'']"
  "totalVirtualHeight crowdedManager = 3000"
  "totalVirtualWidth crowdedManager = 800"
  "elements crowdedManager = [(''virtual-element-0'', 1), (''virtual-element-1'', 2)]"
  "objs crowdedManager =
     (\<lambda>ref. noElement)
       (0 := \<lparr>elemId = ''virtual-element-0'', domElement = 0,
              rect = \<lparr>x = 0, y = 0, width = 100, height = 1000\<rparr>,
              isVisible = True, originalDisplay = []\<rparr>,
        1 := \<lparr>elemId = ''virtual-element-0'', domElement = 1,
              rect = \<lparr>x = 0, y = 1000, width = 100, height = 1000\<rparr>,
              isVisible = False, originalDisplay = []\<rparr>,
        2 := \<lparr>elemId = ''virtual-element-1'', domElement = 2,
              rect = \<lparr>x = 0, y = 2000, width = 100, height = 1000\<rparr>,
              isVisible = False, originalDisplay = []\<rparr>)"
  "children crowdedManager = [SizerNode, ElementNode 0]"
  "document crowdedManager 2 = blankNode\<lparr>nodeId := ''virtual-element-1''\<rparr>"
proof -
  have nd: "\<not> duplicateId collidedManager 2"
    by (simp add: duplicateId_def collidedManager_fields blankNode_def)
  have ch: "\<not> False \<or> ElementNode 2 \<in> set (children collidedManager)" by simp
  note added = handleElementAdded_new[OF nd ch]
  show "scrollTop crowdedManager = 0"
    "scrollLeft crowdedManager = 0"
    "clientWidth crowdedManager = 800"
    "clientHeight crowdedManager = 600"
    "animationFrames crowdedManager = 0"
    "updateQueued crowdedManager = False"
    "virtualScrollTop crowdedManager = 0"
    "virtualScrollLeft crowdedManager = 0"
    "currentlyVisibleElements crowdedManager = [''virtual-element-0'']"
    "totalVirtualHeight crowdedManager = 3000"
    "totalVirtualWidth crowdedManager = 800"
    "elements crowdedManager = [(''virtual-element-0'', 1), (''virtual-element-1'', 2)]"
    "objs crowdedManager =
       (\<lambda>ref. noElement)
         (0 := \<lparr>elemId = ''virtual-element-0'', domElement = 0,
                rect = \<lparr>x = 0, y = 0, width = 100, height = 1000\<rparr>,
                isVisible = True, originalDisplay = []\<rparr>,
          1 := \<lparr>elemId = ''virtual-element-0'', domElement = 1,
                rect = \<lparr>x = 0, y = 1000, width = 100, height = 1000\<rparr>,
                isVisible = False, originalDisplay = []\<rparr>,
          2 := \<lparr>elemId = ''virtual-element-1'', domElement = 2,
                rect = \<lparr>x = 0, y = 2000, width = 100, height = 1000\<rparr>,
                isVisible = False, originalDisplay = []\<rparr>)"
    "children crowdedManager = [SizerNode, ElementNode 0]"
    "document crowdedManager 2 = blankNode\<lparr>nodeId := ''virtual-element-1''\<rparr>"
    unfolding crowdedManager_def
    by (simp_all add: added collidedManager_fields generateId_1 blankNode_def)
qed

lemma crowdedManager_tree:
  "kdTree crowdedManager = KDNode 0 0 Null (KDNode 1 1 Null (KDNode 2 0 Null Null))"
proof -
  have nd: "\<not> duplicateId collidedManager 2"
    by (simp add: duplicateId_def collidedManager_fields blankNode_def)
  have ch: "\<not> False \<or> ElementNode 2 \<in> set (children collidedManager)" by simp
  have "kdTree crowdedManager =
          insert_kd (objs crowdedManager) (KDNode 0 0 Null (KDNode 1 1 Null Null)) 2"
    unfolding crowdedManager_def
    by (simp add: handleElementAdded_new(10)[OF nd ch] collidedManager_fields
          collidedManager_tree)
  then show ?thesis by (simp add: crowdedManager_fields insert_kd_def coordOn_def)
qed

lemma crowdedPending_fields:
  "animationFrames (scrollEvent crowdedManager (0, 0)) = 1"
  "updateQueued (scrollEvent crowdedManager (0, 0)) = True"
  "virtualScrollTop (scrollEvent crowdedManager (0, 0)) = 0"
  "virtualScrollLeft (scrollEvent crowdedManager (0, 0)) = 0"
  "scrollTop (scrollEvent crowdedManager (0, 0)) = 0"
  "scrollLeft (scrollEvent crowdedManager (0, 0)) = 0"
  "clientWidth (scrollEvent crowdedManager (0, 0)) = 800"
  "clientHeight (scrollEvent crowdedManager (0, 0)) = 600"
  "totalVirtualHeight (scrollEvent crowdedManager (0, 0)) = 3000"
  "totalVirtualWidth (scrollEvent crowdedManager (0, 0)) = 800"
  "currentlyVisibleElements (scrollEvent crowdedManager (0, 0)) = [''virtual-element-0'']"
  "elements (scrollEvent crowdedManager (0, 0)) = [(''virtual-element-0'', 1), (''virtual-element-1'', 2)]"
  "objs (scrollEvent crowdedManager (0, 0)) =
     (\<lambda>ref. noElement)
       (0 := \<lparr>elemId = ''virtual-element-0'', domElement = 0,
              rect = \<lparr>x = 0, y = 0, width = 100, height = 1000\<rparr>,
              isVisible = True, originalDisplay = []\<rparr>,
        1 := \<lparr>elemId = ''virtual-element-0'', domElement = 1,
              rect = \<lparr>x = 0, y = 1000, width = 100, height = 1000\<rparr>,
              isVisible = False, originalDisplay = []\<rparr>,
        2 := \<lparr>elemId = ''virtual-element-1'', domElement = 2,
              rect = \<lparr>x = 0, y = 2000, width = 100, height = 1000\<rparr>,
              isVisible = False, originalDisplay = []\<rparr>)"
  "kdTree (scrollEvent crowdedManager (0, 0)) = KDNode 0 0 Null (KDNode 1 1 Null (KDNode 2 0 Null Null))"
  "children (scrollEvent crowdedManager (0, 0)) = [SizerNode, ElementNode 0]"
  "document (scrollEvent crowdedManager (0, 0)) 2 = blankNode\<lparr>nodeId := ''virtual-element-1''\<rparr>"
  by (simp_all add: scrollEvent_def crowdedManager_fields crowdedManager_tree
        verticalScrollCalculation_eq horizontalScrollCalculation_eq
        MAX_SCROLL_HEIGHT_def MAX_SCROLL_WIDTH_def)

lemma crowdedShown_unfold:
  "crowdedShown =
     (attachAdditions ((scrollEvent crowdedManager (0, 0))\<lparr>animationFrames := 0\<rparr>) [0])
       \<lparr>updateQueued := False\<rparr>"
proof -
  let ?E = "(scrollEvent crowdedManager (0, 0))\<lparr>animationFrames := 0\<rparr>"
  have q: "queryRange (objs ?E) (kdTree ?E) (viewportRect ?E) = [0]"
    by (simp add: crowdedPending_fields viewportRect_def queryRange_def intersects_def
          coordOn_def Let_def)
  have r: "foldOutcome (removalStep (map (\<lambda>ve. elemId (objs ?E ve)) [0])) ?E
             (currentlyVisibleElements ?E) = Returned ?E"
    by (simp add: crowdedPending_fields foldOutcome_single removalStep_kept)
  have u: "updateVisibleElements ?E = Returned (attachAdditions ?E [0])"
    unfolding updateVisibleElements_unfold[OF q] r by simp
  show ?thesis
    unfolding crowdedShown_def
    by (simp add: animationFrame_one crowdedPending_fields frameCallback_def u)
qed

lemma crowdedShown_fields:
  "animationFrames crowdedShown = 0"
  "updateQueued crowdedShown = False"
  "virtualScrollTop crowdedShown = 0"
  "virtualScrollLeft crowdedShown = 0"
  "scrollTop crowdedShown = 0"
  "scrollLeft crowdedShown = 0"
  "clientWidth crowdedShown = 800"
  "clientHeight crowdedShown = 600"
  "totalVirtualHeight crowdedShown = 3000"
  "totalVirtualWidth crowdedShown = 800"
  "currentlyVisibleElements crowdedShown = [''virtual-element-0'']"
  "elements crowdedShown = [(''virtual-element-0'', 1), (''virtual-element-1'', 2)]"
  "objs crowdedShown =
     (\<lambda>ref. noElement)
       (0 := \<lparr>elemId = ''virtual-element-0'', domElement = 0,
              rect = \<lparr>x = 0, y = 0, width = 100, height = 1000\<rparr>,
              isVisible = True, originalDisplay = []\<rparr>,
        1 := \<lparr>elemId = ''virtual-element-0'', domElement = 1,
              rect = \<lparr>x = 0, y = 1000, width = 100, height = 1000\<rparr>,
              isVisible = True, originalDisplay = []\<rparr>,
        2 := \<lparr>elemId = ''virtual-element-1'', domElement = 2,
              rect = \<lparr>x = 0, y = 2000, width = 100, height = 1000\<rparr>,
              isVisible = False, originalDisplay = []\<rparr>)"
  "kdTree crowdedShown = KDNode 0 0 Null (KDNode 1 1 Null (KDNode 2 0 Null Null))"
  "children crowdedShown = [SizerNode, ElementNode 0]"
  "document crowdedShown 2 = blankNode\<lparr>nodeId := ''virtual-element-1''\<rparr>"
proof -
  let ?E = "(scrollEvent crowdedManager (0, 0))\<lparr>animationFrames := 0\<rparr>"
  have a: "elemId (objs ?E 0) \<in> set (currentlyVisibleElements ?E)"
    by (simp add: crowdedPending_fields)
  have b: "map_of (elements ?E) (elemId (objs ?E 0)) = Some 1"
    by (simp add: crowdedPending_fields)
  have c: "\<not> isVisible (objs ?E 1)"
    by (simp add: crowdedPending_fields)
  note marks = attachAdditions_marks[OF a b c]
  show
  "animationFrames crowdedShown = 0"
  "updateQueued crowdedShown = False"
  "virtualScrollTop crowdedShown = 0"
  "virtualScrollLeft crowdedShown = 0"
  "scrollTop crowdedShown = 0"
  "scrollLeft crowdedShown = 0"
  "clientWidth crowdedShown = 800"
  "clientHeight crowdedShown = 600"
  "totalVirtualHeight crowdedShown = 3000"
  "totalVirtualWidth crowdedShown = 800"
  "currentlyVisibleElements crowdedShown = [''virtual-element-0'']"
  "elements crowdedShown = [(''virtual-element-0'', 1), (''virtual-element-1'', 2)]"
  "objs crowdedShown =
     (\<lambda>ref. noElement)
       (0 := \<lparr>elemId = ''virtual-element-0'', domElement = 0,
              rect = \<lparr>x = 0, y = 0, width = 100, height = 1000\<rparr>,
              isVisible = True, originalDisplay = []\<rparr>,
        1 := \<lparr>elemId = ''virtual-element-0'', domElement = 1,
              rect = \<lparr>x = 0, y = 1000, width = 100, height = 1000\<rparr>,
              isVisible = True, originalDisplay = []\<rparr>,
        2 := \<lparr>elemId = ''virtual-element-1'', domElement = 2,
              rect = \<lparr>x = 0, y = 2000, width = 100, height = 1000\<rparr>,
              isVisible = False, originalDisplay = []\<rparr>)"
  "kdTree crowdedShown = KDNode 0 0 Null (KDNode 1 1 Null (KDNode 2 0 Null Null))"
  "children crowdedShown = [SizerNode, ElementNode 0]"
  "document crowdedShown 2 = blankNode\<lparr>nodeId := ''virtual-element-1''\<rparr>"
    unfolding crowdedShown_unfold
    by (simp_all add: marks crowdedPending_fields fun_upd_twist)
qed

lemma crowdedScrolled_fields:
  "animationFrames crowdedScrolled = 1"
  "updateQueued crowdedScrolled = True"
  "virtualScrollTop crowdedScrolled = 2400"
  "virtualScrollLeft crowdedScrolled = 0"
  "scrollTop crowdedScrolled = 2400"
  "scrollLeft crowdedScrolled = 0"
  "clientWidth crowdedScrolled = 800"
  "clientHeight crowdedScrolled = 600"
  "totalVirtualHeight crowdedScrolled = 3000"
  "totalVirtualWidth crowdedScrolled = 800"
  "currentlyVisibleElements crowdedScrolled = [''virtual-element-0'']"
  "elements crowdedScrolled = [(''virtual-element-0'', 1), (''virtual-element-1'', 2)]"
  "objs crowdedScrolled =
     (\<lambda>ref. noElement)
       (0 := \<lparr>elemId = ''virtual-element-0'', domElement = 0,
              rect = \<lparr>x = 0, y = 0, width = 100, height = 1000\<rparr>,
              isVisible = True, originalDisplay = []\<rparr>,
        1 := \<lparr>elemId = ''virtual-element-0'', domElement = 1,
              rect = \<lparr>x = 0, y = 1000, width = 100, height = 1000\<rparr>,
              isVisible = True, originalDisplay = []\<rparr>,
        2 := \<lparr>elemId = ''virtual-element-1'', domElement = 2,
              rect = \<lparr>x = 0, y = 2000, width = 100, height = 1000\<rparr>,
              isVisible = False, originalDisplay = []\<rparr>)"
  "kdTree crowdedScrolled = KDNode 0 0 Null (KDNode 1 1 Null (KDNode 2 0 Null Null))"
  "children crowdedScrolled = [SizerNode, ElementNode 0]"
  "document crowdedScrolled 2 = blankNode\<lparr>nodeId := ''virtual-element-1''\<rparr>"
  unfolding crowdedScrolled_def
  by (simp_all add: scrollEvent_def crowdedShown_fields
        verticalScrollCalculation_eq horizontalScrollCalculation_eq
        MAX_SCROLL_HEIGHT_def MAX_SCROLL_WIDTH_def)

lemma crowdedFrame_fields:
  "animationFrames crowdedFrame = 0"
  "updateQueued crowdedFrame = True"
  "virtualScrollTop crowdedFrame = 2400"
  "virtualScrollLeft crowdedFrame = 0"
  "scrollTop crowdedFrame = 2400"
  "scrollLeft crowdedFrame = 0"
  "clientWidth crowdedFrame = 800"
  "clientHeight crowdedFrame = 600"
  "totalVirtualHeight crowdedFrame = 3000"
  "totalVirtualWidth crowdedFrame = 800"
  "currentlyVisibleElements crowdedFrame = [''virtual-element-0'']"
  "elements crowdedFrame = [(''virtual-element-0'', 1), (''virtual-element-1'', 2)]"
  "objs crowdedFrame =
     (\<lambda>ref. noElement)
       (0 := \<lparr>elemId = ''virtual-element-0'', domElement = 0,
              rect = \<lparr>x = 0, y = 0, width = 100, height = 1000\<rparr>,
              isVisible = True, originalDisplay = []\<rparr>,
        1 := \<lparr>elemId = ''virtual-element-0'', domElement = 1,
              rect = \<lparr>x = 0, y = 1000, width = 100, height = 1000\<rparr>,
              isVisible = True, originalDisplay = []\<rparr>,
        2 := \<lparr>elemId = ''virtual-element-1'', domElement = 2,
              rect = \<lparr>x = 0, y = 2000, width = 100, height = 1000\<rparr>,
              isVisible = False, originalDisplay = []\<rparr>)"
  "kdTree crowdedFrame = KDNode 0 0 Null (KDNode 1 1 Null (KDNode 2 0 Null Null))"
  "children crowdedFrame = [SizerNode, ElementNode 0]"
  "document crowdedFrame 2 = blankNode\<lparr>nodeId := ''virtual-element-1''\<rparr>"
  unfolding crowdedFrame_def by (simp_all add: crowdedScrolled_fields)

lemma crowdedFrame_query:
  "queryRange (objs crowdedFrame) (kdTree crowdedFrame) (viewportRect crowdedFrame) = [2]"
  by (simp add: crowdedFrame_fields viewportRect_def queryRange_def intersects_def
        coordOn_def Let_def)

lemma crowdedFrame_throws:
  "updateVisibleElements crowdedFrame =
     Threw NotFoundError
       (crowdedFrame\<lparr>domCalls := domCalls crowdedFrame
                       @ [OriginalRemoveChild (ElementNode 1)]\<rparr>)"
proof -
  have a: "''virtual-element-0'' \<notin> set (map (\<lambda>ve. elemId (objs crowdedFrame ve)) [2])"
    by (simp add: crowdedFrame_fields)
  have b: "map_of (elements crowdedFrame) ''virtual-element-0'' = Some 1"
    by (simp add: crowdedFrame_fields)
  have c: "isVisible (objs crowdedFrame 1)"
    by (simp add: crowdedFrame_fields)
  have d: "ElementNode (domElement (objs crowdedFrame 1)) \<notin> set (children crowdedFrame)"
    by (simp add: crowdedFrame_fields)
  have e: "domElement (objs crowdedFrame 1) = 1"
    by (simp add: crowdedFrame_fields)
  show ?thesis
    unfolding updateVisibleElements_unfold[OF crowdedFrame_query] crowdedFrame_fields(11)
      foldOutcome_single removalStep_throws[OF a b c d] e
    by simp
qed

lemma reachable_crowdedScrolled: "reachable crowdedScrolled"
  unfolding crowdedScrolled_def crowdedShown_def crowdedManager_def collidedManager_def
  by (intro reachable.scrolled reachable.frame reachable.added reachable_exampleManager)

lemma crowdedScrolled_frame:
  "animationFrame crowdedScrolled =
     crowdedFrame\<lparr>domCalls := domCalls crowdedFrame @ [OriginalRemoveChild (ElementNode 1)]\<rparr>"
  using animationFrame_one[OF crowdedScrolled_fields(1)]
  by (simp add: crowdedFrame_def[symmetric] frameCallback_def crowdedFrame_throws)

lemma scrollEvents_suppressed:
  assumes "updateQueued st"
  shows "animationFrames (foldl scrollEvent st events) = animationFrames st
         \<and> updateQueued (foldl scrollEvent st events)"
  using assms
proof (induction events arbitrary: st)
  case Nil
  then show ?case by simp
next
  case (Cons e events)
  have "updateQueued (scrollEvent st e)" "animationFrames (scrollEvent st e) = animationFrames st"
    using Cons.prems by (simp_all add: scrollEvent_def)
  with Cons.IH[of "scrollEvent st e"] show ?case by simp
qed

subsection \<open>The run with a host node tracked twice\<close>













section \<open>The spatial index: what the code does on the claims' inputs\<close>

lemmas kd_eval = applyOps_def insert_kd_def remove_kd_def queryRange_def queryPoint_def
  intersects_def contains_def coordOn_def mkElement_def Let_def

text \<open>
  C1 (index completeness). The claim: after any run of inserts and removes, \<open>queryRange\<close>
  over a rectangle covering all coordinates returns exactly the ids inserted and not
  removed since. The code: insert A at (5,5), B at (3,10), C at (4,3); B becomes the left
  child of A and C the left child of B (on the y axis, depth 1). Removing A, which has no
  right child, returns its left child B as the new root, now at depth 0. Removing C then
  compares x coordinates at B (depth 0), goes right since 4 is not less than 3, and finds
  nothing: C stays in the tree. The covering query returns B and C (C twice), while the
  run tracks B only.
\<close>

theorem C1_removed_element_still_returned:
  "map elemId
     (queryRange (\<lambda>e. e)
        (applyOps (\<lambda>e. e)
           [Insert (mkElement ''A'' 5 5 1 1), Insert (mkElement ''B'' 3 10 1 1),
            Insert (mkElement ''C'' 4 3 1 1), Remove (mkElement ''A'' 5 5 1 1),
            Remove (mkElement ''C'' 4 3 1 1)])
        \<lparr>x = -100, y = -100, width = 200, height = 200\<rparr>)
   = [''B'', ''C'', ''C'']
   \<and> trackedIds
        [Insert (mkElement ''A'' 5 5 1 1), Insert (mkElement ''B'' 3 10 1 1),
         Insert (mkElement ''C'' 4 3 1 1), Remove (mkElement ''A'' 5 5 1 1),
         Remove (mkElement ''C'' 4 3 1 1)] {} = {''B''}"
  by (auto simp add: kd_eval)

text \<open>
  C2 (no duplicates in a range query). The claim: no item appears at more than one
  position of the result of \<open>queryRange\<close>. The code, on the three elements of the
  repository's own insertion test (which expects a result of length 3): el2 is the left
  child of el1, the query's minimum 0 is less than el1's x coordinate 10, so the left
  subtree is visited by the first test and again by the second, and el2 is returned
  twice.
\<close>

theorem C2_left_subtree_reported_twice:
  "queryRange (\<lambda>e. e)
     (applyOps (\<lambda>e. e)
        [Insert (mkElement ''el1'' 10 20 5 5), Insert (mkElement ''el2'' 5 15 5 5),
         Insert (mkElement ''el3'' 15 25 5 5)])
     \<lparr>x = 0, y = 0, width = 100, height = 100\<rparr>
   = [mkElement ''el1'' 10 20 5 5, mkElement ''el2'' 5 15 5 5, mkElement ''el2'' 5 15 5 5,
      mkElement ''el3'' 15 25 5 5]"
  by (simp add: kd_eval)

text \<open>
  C3 (point containment, both edges inclusive). The claim: \<open>queryPoint\<close> returns an item
  if and only if the point lies in its rectangle, edges included. The code, on the
  repository's own edge test: el1 covers 10..20 by 20..30 and contains the corner
  (20, 30), yet the range query with the unit rectangle at (20, 30) rejects el1
  (\<open>intersects\<close> treats touching rectangles as disjoint), so the filter has nothing to keep.
\<close>

theorem C3_far_corner_not_returned:
  "contains (rect (mkElement ''el1'' 10 20 10 10)) 20 30 \<and>
   queryPoint (\<lambda>e. e) (applyOps (\<lambda>e. e) [Insert (mkElement ''el1'' 10 20 10 10)]) 20 30 = []"
  by (simp add: kd_eval)

text \<open>
  C7 (invariant I2 in every reachable tree). The claim: every node's stored axis is its
  depth modulo 2 and its left subtree holds lesser coordinates on that axis. The code:
  insert A at (5,5), B at (3,10), C at (4,3), remove A. B, created at depth 1 with axis 1,
  is now the root at depth 0, and its left child C has the greater x coordinate.
\<close>

theorem C7_axis_differs_from_depth_after_remove:
  "applyOps (\<lambda>e. e)
     [Insert (mkElement ''A'' 5 5 1 1), Insert (mkElement ''B'' 3 10 1 1),
      Insert (mkElement ''C'' 4 3 1 1), Remove (mkElement ''A'' 5 5 1 1)]
   = KDNode (mkElement ''B'' 3 10 1 1) 1 (KDNode (mkElement ''C'' 4 3 1 1) 0 Null Null) Null
   \<and> \<not> invariantI2 (\<lambda>e. e)
        (applyOps (\<lambda>e. e)
           [Insert (mkElement ''A'' 5 5 1 1), Insert (mkElement ''B'' 3 10 1 1),
            Insert (mkElement ''C'' 4 3 1 1), Remove (mkElement ''A'' 5 5 1 1)]) 0"
  by (simp add: kd_eval)

section \<open>The scroll coordinate engine\<close>

text \<open>
  C4 (the forward mapping of \<open>handleScroll\<close>), as amended. For non-negative container
  offset, client size and total extent, per axis: when the total extent is at most the
  surface cap, the virtual offset is the container offset clamped from above by
  \<open>max (total - client) 0\<close> (so it is the container offset itself exactly when that
  offset does not exceed this bound); when the total exceeds the cap and the cap does not
  exceed the client size, it is 0; otherwise it is the clamped ratio of the container
  offset to \<open>cap - client\<close>, times \<open>max (total - client) 0\<close>. In all cases the result lies
  between 0 and \<open>max (total - client) 0\<close>.
\<close>

theorem C4_virtual_scroll_offsets:
  assumes "0 \<le> scrollTop st" and "0 \<le> clientHeight st" and "0 \<le> totalVirtualHeight st"
      and "0 \<le> scrollLeft st" and "0 \<le> clientWidth st" and "0 \<le> totalVirtualWidth st"
  shows "virtualScrollTop (handleScroll st) =
           (if totalVirtualHeight st \<le> MAX_SCROLL_HEIGHT
            then min (scrollTop st) (max (totalVirtualHeight st - clientHeight st) 0)
            else if MAX_SCROLL_HEIGHT - clientHeight st \<le> 0 then 0
            else max 0 (min 1 (scrollTop st / (MAX_SCROLL_HEIGHT - clientHeight st)))
                   * max (totalVirtualHeight st - clientHeight st) 0)
         \<and> 0 \<le> virtualScrollTop (handleScroll st)
         \<and> virtualScrollTop (handleScroll st) \<le> max (totalVirtualHeight st - clientHeight st) 0
         \<and> virtualScrollLeft (handleScroll st) =
           (if totalVirtualWidth st \<le> MAX_SCROLL_WIDTH
            then min (scrollLeft st) (max (totalVirtualWidth st - clientWidth st) 0)
            else if MAX_SCROLL_WIDTH - clientWidth st \<le> 0 then 0
            else max 0 (min 1 (scrollLeft st / (MAX_SCROLL_WIDTH - clientWidth st)))
                   * max (totalVirtualWidth st - clientWidth st) 0)
         \<and> 0 \<le> virtualScrollLeft (handleScroll st)
         \<and> virtualScrollLeft (handleScroll st) \<le> max (totalVirtualWidth st - clientWidth st) 0"
proof -
  have v: "virtualScrollTop (handleScroll st) =
           (if totalVirtualHeight st \<le> MAX_SCROLL_HEIGHT
            then min (scrollTop st) (max (totalVirtualHeight st - clientHeight st) 0)
            else if MAX_SCROLL_HEIGHT - clientHeight st \<le> 0 then 0
            else max 0 (min 1 (scrollTop st / (MAX_SCROLL_HEIGHT - clientHeight st)))
                   * max (totalVirtualHeight st - clientHeight st) 0)"
    using assms(1) by (simp add: verticalScrollCalculation_eq max_absorb2)
  have h: "virtualScrollLeft (handleScroll st) =
           (if totalVirtualWidth st \<le> MAX_SCROLL_WIDTH
            then min (scrollLeft st) (max (totalVirtualWidth st - clientWidth st) 0)
            else if MAX_SCROLL_WIDTH - clientWidth st \<le> 0 then 0
            else max 0 (min 1 (scrollLeft st / (MAX_SCROLL_WIDTH - clientWidth st)))
                   * max (totalVirtualWidth st - clientWidth st) 0)"
    using assms(4) by (simp add: horizontalScrollCalculation_eq max_absorb2)
  have mv: "0 \<le> max (totalVirtualHeight st - clientHeight st) 0" by simp
  have mh: "0 \<le> max (totalVirtualWidth st - clientWidth st) 0" by simp
  have vlo: "0 \<le> virtualScrollTop (handleScroll st)"
    unfolding v using assms(1) clamp_scale(1)[OF mv] by simp
  have vhi: "virtualScrollTop (handleScroll st) \<le> max (totalVirtualHeight st - clientHeight st) 0"
    unfolding v using clamp_scale(2)[OF mv] by simp
  have hlo: "0 \<le> virtualScrollLeft (handleScroll st)"
    unfolding h using assms(4) clamp_scale(1)[OF mh] by simp
  have hhi: "virtualScrollLeft (handleScroll st) \<le> max (totalVirtualWidth st - clientWidth st) 0"
    unfolding h using clamp_scale(2)[OF mh] by simp
  from v vlo vhi h hlo hhi show ?thesis by blast
qed

text \<open>
  The claim as stated makes the virtual offset equal to the container offset whenever the
  total extent is within the cap. In the example manager (total height 1000, client height
  600) a container offset of 500 gives the virtual offset 400: the final clamp of the
  handler applies on the identity branch too.
\<close>

theorem C4_identity_fails_beyond_range:
  "0 \<le> scrollTop (exampleManager\<lparr>scrollTop := 500\<rparr>)
   \<and> 0 \<le> clientHeight (exampleManager\<lparr>scrollTop := 500\<rparr>)
   \<and> 0 \<le> totalVirtualHeight (exampleManager\<lparr>scrollTop := 500\<rparr>)
   \<and> totalVirtualHeight (exampleManager\<lparr>scrollTop := 500\<rparr>) \<le> MAX_SCROLL_HEIGHT
   \<and> scrollTop (exampleManager\<lparr>scrollTop := 500\<rparr>) = 500
   \<and> virtualScrollTop (handleScroll (exampleManager\<lparr>scrollTop := 500\<rparr>)) = 400
   \<and> virtualScrollTop (handleScroll (exampleManager\<lparr>scrollTop := 500\<rparr>))
       \<noteq> scrollTop (exampleManager\<lparr>scrollTop := 500\<rparr>)"
  by (simp add: verticalScrollCalculation_eq exampleManager_fields MAX_SCROLL_HEIGHT_def)

theorem C4_virtual_scroll_offsets_witness:
  "0 \<le> scrollTop (exampleManager\<lparr>scrollTop := 150\<rparr>)
   \<and> 0 \<le> clientHeight (exampleManager\<lparr>scrollTop := 150\<rparr>)
   \<and> 0 \<le> totalVirtualHeight (exampleManager\<lparr>scrollTop := 150\<rparr>)
   \<and> 0 \<le> scrollLeft (exampleManager\<lparr>scrollTop := 150\<rparr>)
   \<and> 0 \<le> clientWidth (exampleManager\<lparr>scrollTop := 150\<rparr>)
   \<and> 0 \<le> totalVirtualWidth (exampleManager\<lparr>scrollTop := 150\<rparr>)
   \<and> virtualScrollTop (handleScroll (exampleManager\<lparr>scrollTop := 150\<rparr>)) = 150
   \<and> virtualScrollLeft (handleScroll (exampleManager\<lparr>scrollTop := 150\<rparr>)) = 0
   \<and> virtualScrollTop
         (handleScroll (exampleManager\<lparr>scrollTop := 499700, totalVirtualHeight := 2000000\<rparr>))
       = 999700"
  using C4_virtual_scroll_offsets[of "exampleManager\<lparr>scrollTop := 150\<rparr>"]
        C4_virtual_scroll_offsets[of "exampleManager\<lparr>scrollTop := 499700,
                                        totalVirtualHeight := 2000000\<rparr>"]
  by (simp add: exampleManager_fields MAX_SCROLL_HEIGHT_def MAX_SCROLL_WIDTH_def)

text \<open>
  C5 (remeasure restores the container's scroll offset), as amended. For a manager whose
  sizer exists, per axis: if the total extent is the same after \<open>remeasure\<close> as before, the
  virtual offset before was the one the forward mapping derives from the container offset
  before, and that container offset lies within the scrollable range of the surface,
  between 0 and \<open>max (min total cap - client) 0\<close>, then the container offset \<open>remeasure\<close>
  writes back equals the offset before, exactly (numbers are exact reals here). A
  \<open>remeasure\<close> that throws does so in its detaching loop, before it assigns the
  container's offsets, which are then the offsets before as well.
\<close>

theorem C5_remeasure_restores_scroll:
  assumes "sizerElement st \<noteq> None"
  shows "(totalVirtualHeight (stateOf (remeasure st)) = totalVirtualHeight st
          \<and> virtualScrollTop st = verticalScrollCalculation st
          \<and> 0 \<le> scrollTop st
          \<and> scrollTop st
              \<le> max (min (totalVirtualHeight st) MAX_SCROLL_HEIGHT - clientHeight st) 0
          \<longrightarrow> scrollTop (stateOf (remeasure st)) = scrollTop st)
       \<and> (totalVirtualWidth (stateOf (remeasure st)) = totalVirtualWidth st
          \<and> virtualScrollLeft st = horizontalScrollCalculation st
          \<and> 0 \<le> scrollLeft st
          \<and> scrollLeft st
              \<le> max (min (totalVirtualWidth st) MAX_SCROLL_WIDTH - clientWidth st) 0
          \<longrightarrow> scrollLeft (stateOf (remeasure st)) = scrollLeft st)"
proof (cases st rule: remeasure_cases)
  case (returns hidden)
  have e: "engineFields hidden = engineFields st"
    using hideLoop_engine[of st "currentlyVisibleElements st"] returns(1) by simp
  have t: "totalVirtualHeight (stateOf (remeasure st)) = totalVirtualHeight (restack hidden)"
    "totalVirtualWidth (stateOf (remeasure st)) = totalVirtualWidth (restack hidden)"
    "scrollTop (stateOf (remeasure st))
       = verticalScrollRestoration (virtualScrollTop st) (restack hidden)"
    "scrollLeft (stateOf (remeasure st))
       = horizontalScrollRestoration (virtualScrollLeft st) (restack hidden)"
    unfolding returns(2) by simp_all
  show ?thesis
    unfolding t
    using verticalScrollRestoration_forward[OF assms e]
          horizontalScrollRestoration_forward[OF assms e]
    by simp
next
  case (throws e thrown)
  have "thrown = stateOf (foldOutcome hideStep st (currentlyVisibleElements st))"
    using throws(1) by simp
  then have "scrollTop thrown = scrollTop st" "scrollLeft thrown = scrollLeft st"
    by simp_all
  then show ?thesis unfolding throws(2) by simp
qed

text \<open>
  The claim as stated has no condition on the captured offset. In the example manager
  (total height 1000, client height 600, so a scrollable range of 400) a container offset
  of 500 is mapped forward to the virtual offset 400; \<open>remeasure\<close> returns, leaves the
  total height at 1000 and writes the container offset 400, not 500.
\<close>

theorem C5_offset_beyond_range_not_restored:
  "sizerElement (scrollEvent exampleManager (500, 0)) \<noteq> None
   \<and> returned (remeasure (scrollEvent exampleManager (500, 0)))
   \<and> totalVirtualHeight (stateOf (remeasure (scrollEvent exampleManager (500, 0))))
       = totalVirtualHeight (scrollEvent exampleManager (500, 0))
   \<and> virtualScrollTop (scrollEvent exampleManager (500, 0))
       = verticalScrollCalculation (scrollEvent exampleManager (500, 0))
   \<and> scrollTop (scrollEvent exampleManager (500, 0)) = 500
   \<and> scrollTop (stateOf (remeasure (scrollEvent exampleManager (500, 0)))) = 400"
proof -
  let ?S = "scrollEvent exampleManager (500, 0)"
  note r = exampleScrolled_restacked[OF hideLoop_engine[of ?S "currentlyVisibleElements ?S"]]
  have "returned (remeasure ?S)"
    by (rule remeasure_returns[OF exampleScrolled_hidden])
  then show ?thesis
    by (simp add: exampleScrolled_fields exampleScrolled_remeasured r
          verticalScrollRestoration_def Let_def MAX_SCROLL_HEIGHT_def MAX_SCROLL_WIDTH_def)
qed

theorem C5_remeasure_restores_scroll_witness:
  "sizerElement (scrollEvent exampleManager (150, 0)) \<noteq> None
   \<and> returned (remeasure (scrollEvent exampleManager (150, 0)))
   \<and> totalVirtualHeight (stateOf (remeasure (scrollEvent exampleManager (150, 0))))
       = totalVirtualHeight (scrollEvent exampleManager (150, 0))
   \<and> virtualScrollTop (scrollEvent exampleManager (150, 0))
       = verticalScrollCalculation (scrollEvent exampleManager (150, 0))
   \<and> virtualScrollTop (scrollEvent exampleManager (150, 0)) = 150
   \<and> scrollTop (scrollEvent exampleManager (150, 0)) = 150
   \<and> scrollTop (stateOf (remeasure (scrollEvent exampleManager (150, 0)))) = 150
   \<and> totalVirtualWidth (stateOf (remeasure (scrollEvent exampleManager (150, 0))))
       = totalVirtualWidth (scrollEvent exampleManager (150, 0))
   \<and> scrollLeft (scrollEvent exampleManager (150, 0)) = 0
   \<and> scrollLeft (stateOf (remeasure (scrollEvent exampleManager (150, 0)))) = 0"
proof -
  have s: "sizerElement (scrollEvent exampleManager (150, 0)) \<noteq> None"
    by (simp add: exampleScrolled_fields)
  have rt: "returned (remeasure (scrollEvent exampleManager (150, 0)))"
    by (rule remeasure_returns[OF exampleScrolled_hidden])
  have hyps:
    "totalVirtualHeight (stateOf (remeasure (scrollEvent exampleManager (150, 0))))
       = totalVirtualHeight (scrollEvent exampleManager (150, 0))"
    "virtualScrollTop (scrollEvent exampleManager (150, 0))
       = verticalScrollCalculation (scrollEvent exampleManager (150, 0))"
    "virtualScrollTop (scrollEvent exampleManager (150, 0)) = 150"
    "0 \<le> scrollTop (scrollEvent exampleManager (150, 0))"
    "scrollTop (scrollEvent exampleManager (150, 0)) = 150"
    "scrollTop (scrollEvent exampleManager (150, 0))
       \<le> max (min (totalVirtualHeight (scrollEvent exampleManager (150, 0))) MAX_SCROLL_HEIGHT
              - clientHeight (scrollEvent exampleManager (150, 0))) 0"
    "totalVirtualWidth (stateOf (remeasure (scrollEvent exampleManager (150, 0))))
       = totalVirtualWidth (scrollEvent exampleManager (150, 0))"
    "virtualScrollLeft (scrollEvent exampleManager (150, 0))
       = horizontalScrollCalculation (scrollEvent exampleManager (150, 0))"
    "0 \<le> scrollLeft (scrollEvent exampleManager (150, 0))"
    "scrollLeft (scrollEvent exampleManager (150, 0)) = 0"
    "scrollLeft (scrollEvent exampleManager (150, 0))
       \<le> max (min (totalVirtualWidth (scrollEvent exampleManager (150, 0))) MAX_SCROLL_WIDTH
              - clientWidth (scrollEvent exampleManager (150, 0))) 0"
    by (simp_all add: exampleScrolled_fields exampleScrolled_remeasured(1,2)
          MAX_SCROLL_HEIGHT_def MAX_SCROLL_WIDTH_def)
  from C5_remeasure_restores_scroll[OF s] hyps s rt show ?thesis by simp
qed

section \<open>The manager: duplicate adds, the frame queue, the visible set\<close>

text \<open>
  C8 (a duplicate id makes the add a no-op). In every state of a run, adding a host
  element whose id is a key of the tracked-item map returns, having changed nothing but
  the log of warnings: the map, the tree, both total extents and every tracked object (so
  the existing item too) are as before. On this path the handler returns before it
  touches the host, so it does not throw.
\<close>

theorem C8_duplicate_add_is_noop:
  assumes "reachable st" and "map_of (elements st) (nodeId (document st el)) \<noteq> None"
  shows "handleElementAdded st el b =
           Returned (st\<lparr>warnings := warnings st @
                 [''Virtualboy: Element with ID '' @ [CHR 39] @ nodeId (document st el) @ [CHR 39]
                  @ '' already added. Skipping.'']\<rparr>)
       \<and> elements (stateOf (handleElementAdded st el b)) = elements st
       \<and> kdTree (stateOf (handleElementAdded st el b)) = kdTree st
       \<and> totalVirtualHeight (stateOf (handleElementAdded st el b)) = totalVirtualHeight st
       \<and> totalVirtualWidth (stateOf (handleElementAdded st el b)) = totalVirtualWidth st
       \<and> objs (stateOf (handleElementAdded st el b)) = objs st"
proof -
  have "map_of (elements st) [] = None"
    using reachable_runInvariant[OF assms(1)] by (simp add: runInvariant_def)
  with assms(2) have "nodeId (document st el) \<noteq> []" by auto
  with assms(2) have "duplicateId st el" by (simp add: duplicateId_def)
  then show ?thesis by (simp add: handleElementAdded_duplicate)
qed

theorem C8_duplicate_add_is_noop_witness:
  "reachable exampleManager
   \<and> map_of (elements exampleManager) (nodeId (document exampleManager 0)) \<noteq> None
   \<and> returned (handleElementAdded exampleManager 0 False)
   \<and> elements (stateOf (handleElementAdded exampleManager 0 False)) = [(''virtual-element-0'', 0)]
   \<and> kdTree (stateOf (handleElementAdded exampleManager 0 False)) = KDNode 0 0 Null Null
   \<and> totalVirtualHeight (stateOf (handleElementAdded exampleManager 0 False)) = 1000
   \<and> totalVirtualWidth (stateOf (handleElementAdded exampleManager 0 False)) = 800
   \<and> objs (stateOf (handleElementAdded exampleManager 0 False)) = objs exampleManager"
proof -
  have h: "map_of (elements exampleManager) (nodeId (document exampleManager 0)) \<noteq> None"
    by (simp add: exampleManager_fields exampleManager_visible)
  from C8_duplicate_add_is_noop[OF reachable_exampleManager h, of False]
  show ?thesis
    using reachable_exampleManager h by (simp add: exampleManager_fields exampleManager_visible)
qed

text \<open>
  C9 (scroll events before a frame are coalesced into one refresh, and the flag is
  cleared after the refresh runs). The callback that \<open>handleScroll\<close> queues clears
  \<open>updateQueued\<close> after \<open>updateVisibleElements\<close>, and nothing catches what the refresh
  throws. In the run from the example manager in which nodes 1 and 2, which have no id,
  are appended, a scroll event at offset 0 and its animation frame follow, and then a
  scroll event at offset 2400: the flag is set and one callback is queued; the refresh
  of the next frame calls the raw \<open>removeChild\<close> for node 1, which is not a child of the
  container, and throws \<open>NotFoundError\<close>; the flag stays set with nothing queued, and
  whatever scroll events follow, none queues a refresh.
\<close>

theorem C9_flag_stays_set_when_refresh_throws:
  "reachable crowdedScrolled
   \<and> updateQueued crowdedScrolled
   \<and> animationFrames crowdedScrolled = 1
   \<and> ElementNode 1 \<notin> set (children crowdedFrame)
   \<and> frameCallback crowdedFrame =
       Threw NotFoundError
         (crowdedFrame\<lparr>domCalls := domCalls crowdedFrame
                         @ [OriginalRemoveChild (ElementNode 1)]\<rparr>)
   \<and> animationFrame crowdedScrolled =
       crowdedFrame\<lparr>domCalls := domCalls crowdedFrame @ [OriginalRemoveChild (ElementNode 1)]\<rparr>
   \<and> updateQueued (animationFrame crowdedScrolled)
   \<and> animationFrames (animationFrame crowdedScrolled) = 0
   \<and> (\<forall>events.
         updateQueued (foldl scrollEvent (animationFrame crowdedScrolled) events)
         \<and> animationFrames (foldl scrollEvent (animationFrame crowdedScrolled) events) = 0)"
proof -
  have q: "updateQueued (animationFrame crowdedScrolled)"
    by (simp add: crowdedScrolled_frame crowdedFrame_fields)
  have z: "animationFrames (animationFrame crowdedScrolled) = 0"
    by simp
  have later: "\<forall>events.
         updateQueued (foldl scrollEvent (animationFrame crowdedScrolled) events)
         \<and> animationFrames (foldl scrollEvent (animationFrame crowdedScrolled) events) = 0"
    using scrollEvents_suppressed[OF q] z by simp
  have thrown: "frameCallback crowdedFrame =
       Threw NotFoundError
         (crowdedFrame\<lparr>domCalls := domCalls crowdedFrame
                         @ [OriginalRemoveChild (ElementNode 1)]\<rparr>)"
    by (simp add: frameCallback_def crowdedFrame_throws)
  have detached: "ElementNode 1 \<notin> set (children crowdedFrame)"
    by (simp add: crowdedFrame_fields)
  have queued: "updateQueued crowdedScrolled" "animationFrames crowdedScrolled = 1"
    by (simp_all add: crowdedScrolled_fields)
  from reachable_crowdedScrolled queued detached thrown crowdedScrolled_frame q z later
  show ?thesis by blast
qed

text \<open>
  C10 (the visible set holds exactly the ids of the tracked items marked visible). The
  claim holds of the example manager after construction, where node 0 with the id
  \<open>virtual-element-0\<close> is tracked and visible. Appending node 1, which has no id, makes
  \<open>generateId\<close> return \<open>virtual-element-0\<close> (the counter is still 0): the add returns, and
  the map entry of that id now refers to the new object, which is not visible, while the
  id stays in \<open>currentlyVisibleElements\<close>. The visible set names an id whose tracked item
  is not marked visible, and \<open>getVisibleElements\<close> returns nothing although node 0 is
  attached.
\<close>

theorem C10_generated_id_collides:
  "visibleSetConsistent exampleManager
   \<and> returned (handleElementAdded exampleManager 1 False)
   \<and> currentlyVisibleElements (stateOf (handleElementAdded exampleManager 1 False))
       = [''virtual-element-0'']
   \<and> elements (stateOf (handleElementAdded exampleManager 1 False))
       = [(''virtual-element-0'', 1)]
   \<and> isVisible (objs (stateOf (handleElementAdded exampleManager 1 False)) 1) = False
   \<and> \<not> visibleSetConsistent (stateOf (handleElementAdded exampleManager 1 False))
   \<and> getVisibleElements (stateOf (handleElementAdded exampleManager 1 False)) = []"
proof -
  have r: "returned (handleElementAdded exampleManager 1 False)"
    by (rule handleElementAdded_returns) simp
  have c: "visibleSetConsistent exampleManager"
    by (simp add: visibleSetConsistent_def exampleManager_fields exampleManager_visible)
  have v: "currentlyVisibleElements collidedManager = [''virtual-element-0'']"
    "elements collidedManager = [(''virtual-element-0'', 1)]"
    "isVisible (objs collidedManager 1) = False"
    by (simp_all add: collidedManager_fields)
  have n: "\<not> visibleSetConsistent collidedManager"
    by (simp add: visibleSetConsistent_def collidedManager_fields)
  have g: "getVisibleElements collidedManager = []"
    by (simp add: getVisibleElements_def List.map_filter_def collidedManager_fields)
  from r c v n g show ?thesis unfolding collidedManager_def by blast
qed

section \<open>The rendered position of an element entering visibility\<close>




end
